theory Spec2Isabelle
  imports Complex_Main
begin

section \<open>Numbers, errors and tensors\<close>

text \<open>
  The model classes \<open>DVAE\<close> and \<open>DRVAE\<close> of \<open>diffeo_vae.py\<close> compute on tensors of
  floating-point numbers. A tensor element is modelled as an exact real number or one of
  the three special values of IEEE arithmetic, which the source tests for with
  \<open>torch.isnan\<close>. Arithmetic on finite values is exact: rounding is not part of the
  model, neither is the overflow of a finite result to an infinity, and the two zeros are
  identified (a division of a positive number by zero gives plus infinity). Statements
  that depend on the size of a result bound it explicitly. What the source raises is
  part of the model, including the OverflowError of Python's conversion of a too large
  integer to a float.
\<close>

datatype fl = Fin real | PInf | NInf | NaN

fun fl_isnan :: "fl \<Rightarrow> bool" where
  "fl_isnan NaN = True"
| "fl_isnan _ = False"

fun fl_isfinite :: "fl \<Rightarrow> bool" where
  "fl_isfinite (Fin _) = True"
| "fl_isfinite _ = False"

fun fl_neg :: "fl \<Rightarrow> fl" where
  "fl_neg (Fin a) = Fin (- a)"
| "fl_neg PInf = NInf"
| "fl_neg NInf = PInf"
| "fl_neg NaN = NaN"

fun fl_add :: "fl \<Rightarrow> fl \<Rightarrow> fl" where
  "fl_add (Fin a) (Fin b) = Fin (a + b)"
| "fl_add NaN _ = NaN"
| "fl_add _ NaN = NaN"
| "fl_add PInf NInf = NaN"
| "fl_add NInf PInf = NaN"
| "fl_add PInf _ = PInf"
| "fl_add NInf _ = NInf"
| "fl_add _ PInf = PInf"
| "fl_add _ NInf = NInf"

definition fl_sub :: "fl \<Rightarrow> fl \<Rightarrow> fl" where
  "fl_sub a b = fl_add a (fl_neg b)"

text \<open>The sign of an infinite product or quotient: the infinity of sign \<open>s\<close>.\<close>

definition fl_inf :: "bool \<Rightarrow> fl" where
  "fl_inf positive = (if positive then PInf else NInf)"

fun fl_mul :: "fl \<Rightarrow> fl \<Rightarrow> fl" where
  "fl_mul (Fin a) (Fin b) = Fin (a * b)"
| "fl_mul NaN _ = NaN"
| "fl_mul _ NaN = NaN"
| "fl_mul (Fin a) PInf = (if a = 0 then NaN else fl_inf (0 < a))"
| "fl_mul (Fin a) NInf = (if a = 0 then NaN else fl_inf (a < 0))"
| "fl_mul PInf (Fin b) = (if b = 0 then NaN else fl_inf (0 < b))"
| "fl_mul NInf (Fin b) = (if b = 0 then NaN else fl_inf (b < 0))"
| "fl_mul PInf PInf = PInf"
| "fl_mul PInf NInf = NInf"
| "fl_mul NInf PInf = NInf"
| "fl_mul NInf NInf = PInf"

fun fl_div :: "fl \<Rightarrow> fl \<Rightarrow> fl" where
  "fl_div (Fin a) (Fin b) =
     (if b = 0 then (if a = 0 then NaN else fl_inf (0 < a)) else Fin (a / b))"
| "fl_div NaN _ = NaN"
| "fl_div _ NaN = NaN"
| "fl_div (Fin a) PInf = Fin 0"
| "fl_div (Fin a) NInf = Fin 0"
| "fl_div PInf (Fin b) = fl_inf (0 \<le> b)"
| "fl_div NInf (Fin b) = fl_inf (b < 0)"
| "fl_div PInf PInf = NaN"
| "fl_div PInf NInf = NaN"
| "fl_div NInf PInf = NaN"
| "fl_div NInf NInf = NaN"

fun fl_sqrt :: "fl \<Rightarrow> fl" where
  "fl_sqrt (Fin a) = (if a < 0 then NaN else Fin (sqrt a))"
| "fl_sqrt PInf = PInf"
| "fl_sqrt NInf = NaN"
| "fl_sqrt NaN = NaN"

text \<open>Comparison \<open>a > b\<close>: false as soon as one side is NaN.\<close>

fun fl_gt :: "fl \<Rightarrow> fl \<Rightarrow> bool" where
  "fl_gt (Fin a) (Fin b) = (b < a)"
| "fl_gt NaN _ = False"
| "fl_gt _ NaN = False"
| "fl_gt PInf PInf = False"
| "fl_gt PInf _ = True"
| "fl_gt NInf _ = False"
| "fl_gt (Fin a) NInf = True"
| "fl_gt (Fin a) PInf = False"

text \<open>\<open>torch.clamp(x, lo, hi)\<close> on one element is \<open>min(max(x, lo), hi)\<close>; NaN stays NaN.\<close>

definition fl_clamp :: "real \<Rightarrow> real \<Rightarrow> fl \<Rightarrow> fl" where
  "fl_clamp lo hi x =
     (if fl_isnan x then NaN
      else let y = (if fl_gt (Fin lo) x then Fin lo else x)
           in if fl_gt y (Fin hi) then Fin hi else y)"

definition fl_sum :: "fl list \<Rightarrow> fl" where
  "fl_sum xs = foldr fl_add xs (Fin 0)"

text \<open>The exceptions the modelled code can raise.\<close>

datatype error =
    AssertionError string
  | ZeroDivisionError
  | OverflowError
  | IndexError
  | RuntimeError
  | ExternalError string

definition ebind :: "error + 'a \<Rightarrow> ('a \<Rightarrow> error + 'b) \<Rightarrow> error + 'b" where
  "ebind r f = (case r of Inl e \<Rightarrow> Inl e | Inr v \<Rightarrow> f v)"

text \<open>
  Python's \<open>float(n)\<close> for an integer \<open>n\<close>: the nearest double, and an OverflowError
  when that is out of range, which is from \<open>2^1024 - 2^970\<close> on (the midpoint between
  the largest double and \<open>2^1024\<close>, which rounds up). \<open>float(2 ** k)\<close>: the power
  is an integer for \<open>k \<ge> 0\<close>, and already a float for a negative \<open>k\<close>.
\<close>

definition py_float :: "int \<Rightarrow> error + real" where
  "py_float n =
     (if 2 ^ 1024 - 2 ^ 970 \<le> \<bar>n\<bar> then Inl OverflowError else Inr (real_of_int n))"

definition py_float_pow2 :: "int \<Rightarrow> error + real" where
  "py_float_pow2 k = (if 0 \<le> k then py_float (2 ^ nat k) else Inr (2 powi k))"

text \<open>
  A tensor is its shape and its elements in row-major order. A well-formed tensor has as
  many elements as its shape says.
\<close>

record 'a tensor =
  shape :: "nat list"
  elems :: "'a list"

definition wf_tensor :: "'a tensor \<Rightarrow> bool" where
  "wf_tensor t = (length (elems t) = prod_list (shape t))"

definition has_nan :: "fl tensor \<Rightarrow> bool" where
  "has_nan t = list_ex fl_isnan (elems t)"

definition all_finite :: "fl tensor \<Rightarrow> bool" where
  "all_finite t = list_all fl_isfinite (elems t)"

definition zeros :: "nat list \<Rightarrow> fl tensor" where
  "zeros s = \<lparr>shape = s, elems = replicate (prod_list s) (Fin 0)\<rparr>"

text \<open>Flat index to multi-index and back, for a given shape.\<close>

fun unravel :: "nat list \<Rightarrow> nat \<Rightarrow> nat list" where
  "unravel [] k = []"
| "unravel (d # ds) k = (k div prod_list ds) # unravel ds (k mod prod_list ds)"

fun ravel :: "nat list \<Rightarrow> nat list \<Rightarrow> nat" where
  "ravel (d # ds) (i # js) = i * prod_list ds + ravel ds js"
| "ravel _ _ = 0"

text \<open>
  Broadcasting as the tensor library defines it: shapes are aligned at their last
  dimension, and a dimension of size 1 is stretched to the other operand's size.
  \<open>bshape_rev\<close> works on the reversed shapes.
\<close>

fun bshape_rev :: "nat list \<Rightarrow> nat list \<Rightarrow> nat list option" where
  "bshape_rev [] ys = Some ys"
| "bshape_rev xs [] = Some xs"
| "bshape_rev (x # xs) (y # ys) =
     (if x = y \<or> y = 1 then map_option (Cons x) (bshape_rev xs ys)
      else if x = 1 then map_option (Cons y) (bshape_rev xs ys)
      else None)"

definition broadcast_shapes :: "nat list \<Rightarrow> nat list \<Rightarrow> nat list option" where
  "broadcast_shapes a b = map_option rev (bshape_rev (rev a) (rev b))"

text \<open>The multi-index of the operand of shape \<open>ts\<close> read at the result's multi-index.\<close>

definition bidx :: "nat list \<Rightarrow> nat list \<Rightarrow> nat list" where
  "bidx ts idx =
     map2 (\<lambda>d i. if d = 1 then 0 else i) ts (drop (length idx - length ts) idx)"

definition bget :: "'a tensor \<Rightarrow> nat list \<Rightarrow> nat \<Rightarrow> 'a" where
  "bget t s k = elems t ! ravel (shape t) (bidx (shape t) (unravel s k))"

text \<open>An elementwise binary operation with broadcasting; a mismatch is a RuntimeError.\<close>

definition binop :: "('a \<Rightarrow> 'b \<Rightarrow> 'c) \<Rightarrow> 'a tensor \<Rightarrow> 'b tensor \<Rightarrow> error + 'c tensor" where
  "binop f a b =
     (case broadcast_shapes (shape a) (shape b) of
        None \<Rightarrow> Inl RuntimeError
      | Some s \<Rightarrow>
          Inr \<lparr>shape = s,
               elems = map (\<lambda>k. f (bget a s k) (bget b s k)) [0..<prod_list s]\<rparr>)"

text \<open>
  The in-place form \<open>x += y\<close>: the broadcast shape has to be the shape of \<open>x\<close>.
\<close>

definition iadd :: "fl tensor \<Rightarrow> fl tensor \<Rightarrow> error + fl tensor" where
  "iadd x y =
     (case broadcast_shapes (shape x) (shape y) of
        None \<Rightarrow> Inl RuntimeError
      | Some s \<Rightarrow> if s = shape x then binop fl_add x y else Inl RuntimeError)"

text \<open>\<open>t.expand(s)\<close>: the tensor broadcast to the given shape.\<close>

definition expand :: "'a tensor \<Rightarrow> nat list \<Rightarrow> error + 'a tensor" where
  "expand t s =
     (if broadcast_shapes (shape t) s = Some s
      then Inr \<lparr>shape = s, elems = map (bget t s) [0..<prod_list s]\<rparr>
      else Inl RuntimeError)"

text \<open>A tensor and a Python float: the float acts on every element.\<close>

definition tmap :: "('a \<Rightarrow> 'b) \<Rightarrow> 'a tensor \<Rightarrow> 'b tensor" where
  "tmap f t = \<lparr>shape = shape t, elems = map f (elems t)\<rparr>"

text \<open>\<open>t.size(0)\<close>, which a tensor without dimensions does not have.\<close>

definition size0 :: "'a tensor \<Rightarrow> error + nat" where
  "size0 t = (case shape t of [] \<Rightarrow> Inl IndexError | b # _ \<Rightarrow> Inr b)"

text \<open>
  \<open>torch.sum(t, dim=tuple(range(1, n + 1)))\<close>: the dimensions 1 to \<open>n\<close> are summed
  out. The tensor needs \<open>n + 1\<close> dimensions; dimensions after them are kept.
\<close>

definition sum_dims :: "nat \<Rightarrow> fl tensor \<Rightarrow> error + fl tensor" where
  "sum_dims n t =
     (case shape t of
        [] \<Rightarrow> Inl IndexError
      | b # ds \<Rightarrow>
          if length ds < n then Inl IndexError
          else let m = prod_list (take n ds); r = prod_list (drop n ds)
               in Inr \<lparr>shape = b # drop n ds,
                       elems = map (\<lambda>k. fl_sum (map (\<lambda>j. elems t ! ((k div r) * m * r + j * r + k mod r))
                                                      [0..<m]))
                                   [0..<b * r]\<rparr>)"

text \<open>
  \<open>t.view(b, -1)\<close> with \<open>b = t.size(0)\<close>: the other dimensions are flattened; the
  size of the flattened dimension cannot be inferred when \<open>b\<close> is 0.
\<close>

definition view_rows :: "'a tensor \<Rightarrow> error + 'a tensor" where
  "view_rows t =
     (case shape t of
        [] \<Rightarrow> Inl IndexError
      | b # ds \<Rightarrow> if b = 0 then Inl RuntimeError
                  else Inr \<lparr>shape = [b, prod_list ds], elems = elems t\<rparr>)"

text \<open>\<open>t.view(s)\<close>: the same elements under another shape of the same size.\<close>

definition view :: "'a tensor \<Rightarrow> nat list \<Rightarrow> error + 'a tensor" where
  "view t s =
     (if prod_list s = prod_list (shape t) then Inr \<lparr>shape = s, elems = elems t\<rparr>
      else Inl RuntimeError)"

text \<open>
  \<open>t.repeat(n, 1, ..., 1)\<close> with as many arguments as \<open>t\<close> has dimensions: \<open>n\<close> copies
  along the first dimension.
\<close>

definition repeat0 :: "nat \<Rightarrow> 'a tensor \<Rightarrow> error + 'a tensor" where
  "repeat0 n t =
     (case shape t of
        [] \<Rightarrow> Inl RuntimeError
      | b # ds \<Rightarrow> Inr \<lparr>shape = (n * b) # ds, elems = concat (replicate n (elems t))\<rparr>)"

text \<open>The rows of a tensor along its last dimension.\<close>

fun chunks :: "nat \<Rightarrow> nat \<Rightarrow> 'a list \<Rightarrow> 'a list list" where
  "chunks 0 w xs = []"
| "chunks (Suc n) w xs = take w xs # chunks n w (drop w xs)"

text \<open>
  \<open>torch.cat((a, b), dim=-1)\<close>: all dimensions but the last agree, and each row of
  \<open>a\<close> is followed by the row of \<open>b\<close>.
\<close>

definition cat_last :: "'a tensor \<Rightarrow> 'a tensor \<Rightarrow> error + 'a tensor" where
  "cat_last a b =
     (if shape a = [] \<or> shape b = [] then Inl RuntimeError
      else if butlast (shape a) \<noteq> butlast (shape b) then Inl RuntimeError
      else let n = prod_list (butlast (shape a)); wa = last (shape a); wb = last (shape b)
           in Inr \<lparr>shape = butlast (shape a) @ [wa + wb],
                   elems = concat (map2 (@) (chunks n wa (elems a)) (chunks n wb (elems b)))\<rparr>)"

text \<open>
  \<open>torch.split(z, [p, s], dim=-1)\<close>: the last dimension has size \<open>p + s\<close>, with
  \<open>p\<close> and \<open>s\<close> not negative, and every row is cut after \<open>p\<close> elements.
\<close>

definition split_last :: "'a tensor \<Rightarrow> int \<Rightarrow> int \<Rightarrow> error + ('a tensor \<times> 'a tensor)" where
  "split_last z p s =
     (if shape z = [] then Inl IndexError
      else if p < 0 \<or> s < 0 \<or> int (last (shape z)) \<noteq> p + s then Inl RuntimeError
      else let n = prod_list (butlast (shape z)); rows = chunks n (last (shape z)) (elems z)
           in Inr (\<lparr>shape = butlast (shape z) @ [nat p],
                    elems = concat (map (take (nat p)) rows)\<rparr>,
                   \<lparr>shape = butlast (shape z) @ [nat s],
                    elems = concat (map (drop (nat p)) rows)\<rparr>))"


text \<open>
  \<open>torch.where(c, a, b)\<close>: the three operands are broadcast together and every
  element is taken from \<open>a\<close> where the condition holds and from \<open>b\<close> elsewhere.
\<close>

fun pick :: "bool \<Rightarrow> 'a \<times> 'a \<Rightarrow> 'a" where
  "pick c (x, y) = (if c then x else y)"

definition where3 :: "bool tensor \<Rightarrow> 'a tensor \<Rightarrow> 'a tensor \<Rightarrow> error + 'a tensor" where
  "where3 c a b = ebind (binop Pair a b) (binop pick c)"

text \<open>
  \<open>torch.linspace(a, b, n)\<close>: \<open>n\<close> evenly spaced values from \<open>a\<close> to \<open>b\<close>; the
  single value \<open>a\<close> when \<open>n\<close> is 1.
\<close>

definition linspace :: "real \<Rightarrow> real \<Rightarrow> nat \<Rightarrow> fl list" where
  "linspace a b n =
     (if n = 1 then [Fin a]
      else map (\<lambda>i. Fin (a + real i * (b - a) / real (n - 1))) [0..<n])"

text \<open>
  \<open>torch.meshgrid\<close> of one-dimensional tensors (matrix indexing): the \<open>k\<close>-th result
  has the product shape and holds, at every multi-index, the \<open>k\<close>-th input at the
  \<open>k\<close>-th component of the index. \<open>torch.stack\<close> puts tensors of one shape along a
  new first dimension. Both need at least one tensor.
\<close>

definition meshgrid :: "'a list list \<Rightarrow> error + 'a tensor list" where
  "meshgrid lins =
     (if lins = [] then Inl RuntimeError
      else let s = map length lins
           in Inr (map (\<lambda>k. \<lparr>shape = s,
                               elems = map (\<lambda>j. lins ! k ! (unravel s j ! k)) [0..<prod_list s]\<rparr>)
                       [0..<length lins]))"

definition stack :: "'a tensor list \<Rightarrow> error + 'a tensor" where
  "stack ts =
     (if ts = [] \<or> (\<exists>t \<in> set ts. shape t \<noteq> shape (hd ts)) then Inl RuntimeError
      else Inr \<lparr>shape = length ts # shape (hd ts), elems = concat (map elems ts)\<rparr>)"

section \<open>The two model classes\<close>

text \<open>
  The helpers imported from \<open>src.support\<close> are not part of the modelled file; they are
  parameters of the model and may raise. Their arguments are those of the call sites:
  the interpolated field, the sampling positions and the downsampling factor; the source
  image and the diffeomorphism; the momentum, the kernel width and the flag \<open>scaled\<close>.
\<close>

record externals =
  batched_vector_interpolation_adaptive ::
    "fl tensor \<Rightarrow> fl tensor \<Rightarrow> nat \<Rightarrow> error + fl tensor"
  batched_scalar_interpolation_adaptive :: "fl tensor \<Rightarrow> fl tensor \<Rightarrow> error + fl tensor"
  batched_vector_smoothing :: "fl tensor \<Rightarrow> real \<Rightarrow> bool \<Rightarrow> error + fl tensor"

text \<open>
  The networks the factories build are black boxes as well: deterministic functions
  from a tensor to a tensor, which may raise. The constructor receives them built.
\<close>

record networks =
  net_space_encoder :: "fl tensor \<Rightarrow> error + fl tensor"
  net_time_encoder :: "fl tensor \<Rightarrow> error + fl tensor"
  net_decoder_s :: "fl tensor \<Rightarrow> error + fl tensor"

text \<open>The keyword arguments the constructor reads.\<close>

record kwargs =
  kw_unclamp_atlas :: bool
  kw_tol :: real
  kw_isometry_constraint :: bool
  kw_downsampling_grid :: int
  kw_deformation_kernel_width :: real
  kw_number_of_time_points :: int
  kw_pi_mode :: string

text \<open>The attributes of a constructed model; both classes have the same ones.\<close>

record vae =
  model_name :: string
  model_type :: string
  decode_count :: nat
  clamp_atlas :: bool
  tol :: real
  isometry_constraint :: bool
  nb_channels :: nat
  grid_size :: "nat list"
  latent_dimension :: int
  latent_dimension_s :: int
  latent_dimension_psi :: int
  downsampling_grid :: nat
  downsampled_grid_size :: "nat list"
  deformation_kernel_width :: real
  number_of_time_points :: int
  dt :: real
  noise_dimension :: nat
  pi_mode :: string
  space_encoder :: "fl tensor \<Rightarrow> error + fl tensor"
  time_encoder :: "fl tensor \<Rightarrow> error + fl tensor"
  decoder_s :: "fl tensor \<Rightarrow> error + fl tensor"
  atlas :: "fl tensor"

subsection \<open>Class DVAE\<close>

text \<open>
  \<open>__init__\<close>. The first argument stands for \<open>data_statistics[0]\<close>; the initial atlas
  is that tensor with a batch dimension of size 1 in front. \<open>2 ** e\<close> is an integer
  for \<open>e \<ge> 0\<close> and a float below 1 otherwise, hence the power with an integer exponent.
  The inverse of \<open>float(number_of_time_points - 1)\<close> is a Python float division,
  which raises for a zero divisor.
\<close>

definition DVAE_init :: "networks \<Rightarrow> fl tensor \<Rightarrow> int \<Rightarrow> kwargs \<Rightarrow> error + vae" where
  "DVAE_init nets atlas0 latent_dim kw =
     (let initial_atlas = \<lparr>shape = 1 # shape atlas0, elems = elems atlas0\<rparr>
      in case shape initial_atlas of
           _ # nb # gs \<Rightarrow>
             if length gs \<notin> {2, 3}
             then Inl (AssertionError ''Restricted to dimensions 2 and 3'')
             else if (2::real) powi kw_downsampling_grid kw \<notin> {1, 2, 4}
             then Inl (AssertionError ''Only supports grid downsampling by 1, 2 and 4'')
             else let dsf = 2 ^ nat (kw_downsampling_grid kw)
                  in ebind (py_float (kw_number_of_time_points kw - 1)) (\<lambda>steps.
                     if steps = 0 then Inl ZeroDivisionError
                     else Inr \<lparr>model_name = ''referentialdiffeomorphic_vae'',
                               model_type = ''diffeo'',
                               decode_count = 0,
                               clamp_atlas = (\<not> kw_unclamp_atlas kw),
                               tol = kw_tol kw,
                               isometry_constraint = kw_isometry_constraint kw,
                               nb_channels = nb,
                               grid_size = gs,
                               latent_dimension = latent_dim,
                               latent_dimension_s = latent_dim - 1,
                               latent_dimension_psi = 1,
                               downsampling_grid = dsf,
                               downsampled_grid_size = map (\<lambda>g. g div dsf) gs,
                               deformation_kernel_width = kw_deformation_kernel_width kw,
                               number_of_time_points = kw_number_of_time_points kw,
                               dt = 1 / steps,
                               noise_dimension = prod_list gs,
                               pi_mode = kw_pi_mode kw,
                               space_encoder = net_space_encoder nets,
                               time_encoder = net_time_encoder nets,
                               decoder_s = net_decoder_s nets,
                               atlas = initial_atlas\<rparr>)
         | _ \<Rightarrow> Inl IndexError)"

text \<open>
  The base grid of \<open>vector_field_integration\<close>: one \<open>linspace\<close> per axis from 0 to
  the full size minus 1 with the downsampled number of points, combined by \<open>meshgrid\<close>,
  stacked, viewed with a batch dimension of size 1 and repeated over the batch.
\<close>

definition DVAE_base_grid :: "vae \<Rightarrow> nat \<Rightarrow> error + fl tensor" where
  "DVAE_base_grid m bts =
     (let ndim = length (grid_size m); gs = grid_size m; dgs = downsampled_grid_size m
      in ebind (meshgrid (map2 (\<lambda>elt delt. linspace 0 (real elt - 1) delt) gs dgs)) (\<lambda>ms.
         ebind (stack ms) (\<lambda>st.
         ebind (view st ([1, ndim] @ dgs)) (\<lambda>g1.
         repeat0 bts g1))))"

text \<open>
  The integration loop, for the number of steps still to do. Each step interpolates the
  displacement \<open>x - grid\<close> at \<open>x\<close>, adds \<open>dt\<close> times the result to \<open>x\<close> in place and
  asserts that no NaN has appeared.
\<close>

primrec DVAE_integration_steps ::
    "nat \<Rightarrow> externals \<Rightarrow> vae \<Rightarrow> fl tensor \<Rightarrow> fl tensor \<Rightarrow> error + fl tensor" where
  "DVAE_integration_steps 0 ext m grid x = Inr x"
| "DVAE_integration_steps (Suc n) ext m grid x =
     ebind (binop fl_sub x grid) (\<lambda>d.
     ebind (batched_vector_interpolation_adaptive ext d x (downsampling_grid m)) (\<lambda>w.
     ebind (iadd x (tmap (fl_mul (Fin (dt m))) w)) (\<lambda>x'.
     if has_nan x' then Inl (AssertionError ''NaN detected in grid during integration step'')
     else DVAE_integration_steps n ext m grid x')))"

text \<open>
  \<open>vector_field_integration\<close>. \<open>range(1, ntp + 1)\<close> has \<open>ntp\<close> elements, none when
  \<open>ntp\<close> is not positive.
\<close>

definition DVAE_vector_field_integration ::
    "externals \<Rightarrow> vae \<Rightarrow> fl tensor \<Rightarrow> error + fl tensor" where
  "DVAE_vector_field_integration ext m v =
     ebind (size0 v) (\<lambda>bts.
     let ntp = number_of_time_points m
     in ebind (DVAE_base_grid m bts) (\<lambda>grid.
        ebind (py_float_pow2 ntp) (\<lambda>scale.
        ebind (binop fl_add grid (tmap (\<lambda>e. fl_div e (Fin scale)) v)) (\<lambda>x.
        DVAE_integration_steps (nat ntp) ext m grid x))))"

definition DVAE_apply_diffeomorphism ::
    "externals \<Rightarrow> fl tensor \<Rightarrow> fl tensor \<Rightarrow> error + fl tensor" where
  "DVAE_apply_diffeomorphism ext source diffeomorphism =
     (if has_nan source then Inl (AssertionError ''NaN detected in source'')
      else ebind (batched_scalar_interpolation_adaptive ext source diffeomorphism)
             (\<lambda>warped_source.
                if has_nan warped_source
                then Inl (AssertionError ''NaN detected in warped_source'')
                else Inr warped_source))"

definition DVAE_encode :: "vae \<Rightarrow> fl tensor \<Rightarrow> error + (fl tensor \<times> fl tensor)" where
  "DVAE_encode m observations =
     ebind (time_encoder m observations) (\<lambda>pre_z_psi.
     ebind (space_encoder m observations) (\<lambda>pre_z_s.
     Inr (pre_z_psi, pre_z_s)))"

text \<open>
  The parts of \<open>decode_s\<close>. The field energy is the sum, over all dimensions but the
  batch, of velocity times momentum. The normalizer is the square root of the quotient
  of latent norm and energy where the latent norm exceeds the tolerance, and 0 elsewhere;
  both branches of \<open>torch.where\<close> are computed for every element.
\<close>

definition DVAE_field_energy :: "nat \<Rightarrow> fl tensor \<Rightarrow> fl tensor \<Rightarrow> error + fl tensor" where
  "DVAE_field_energy ndim v v_star = ebind (binop fl_mul v v_star) (sum_dims (ndim + 1))"

definition DVAE_normalizer :: "real \<Rightarrow> fl tensor \<Rightarrow> fl tensor \<Rightarrow> error + fl tensor" where
  "DVAE_normalizer tolr latent_norm_squared v_norm_squared =
     ebind (binop fl_div latent_norm_squared v_norm_squared) (\<lambda>q.
     where3 (tmap (\<lambda>l. fl_gt l (Fin tolr)) latent_norm_squared) (tmap fl_sqrt q)
            \<lparr>shape = [], elems = [Fin 0]\<rparr>)"

definition DVAE_normalize ::
    "nat \<Rightarrow> real \<Rightarrow> fl tensor \<Rightarrow> fl tensor \<Rightarrow> fl tensor \<Rightarrow> error + fl tensor" where
  "DVAE_normalize ndim tolr latent_norm_squared v_star v =
     ebind (DVAE_field_energy ndim v v_star) (\<lambda>v_norm_squared.
     ebind (DVAE_normalizer tolr latent_norm_squared v_norm_squared) (\<lambda>normalizer.
     ebind (size0 latent_norm_squared) (\<lambda>n0.
     ebind (view normalizer (n0 # replicate (ndim + 1) 1)) (\<lambda>nv.
     ebind (expand nv (shape v)) (\<lambda>ne.
     binop fl_mul v ne)))))"

text \<open>Steps 1 and 2 of \<open>decode_s\<close>: the velocity field that is checked for NaN.\<close>

definition DVAE_velocity_field ::
    "externals \<Rightarrow> vae \<Rightarrow> fl tensor \<Rightarrow> fl tensor \<Rightarrow> error + fl tensor" where
  "DVAE_velocity_field ext m z_psi z =
     ebind (size0 z) (\<lambda>bts.
     let ndim = length (grid_size m)
     in ebind (cat_last z_psi z) (\<lambda>z_stacked.
        ebind (view_rows z) (\<lambda>zr.
        ebind (sum_dims 1 (tmap (\<lambda>e. fl_mul e e) zr)) (\<lambda>latent_norm_squared.
        ebind (decoder_s m z_stacked) (\<lambda>v_star.
        ebind (batched_vector_smoothing ext v_star (deformation_kernel_width m) False) (\<lambda>v.
        if isometry_constraint m
        then DVAE_normalize ndim (tol m) latent_norm_squared v_star v
        else Inr v))))))"

definition DVAE_decode_s ::
    "externals \<Rightarrow> vae \<Rightarrow> fl tensor \<Rightarrow> fl tensor \<Rightarrow> error + fl tensor" where
  "DVAE_decode_s ext m z_psi z =
     ebind (DVAE_velocity_field ext m z_psi z) (\<lambda>v.
     if has_nan v then Inl (AssertionError ''NaN detected v'')
     else DVAE_vector_field_integration ext m v)"

definition DVAE_absolute_decode :: "externals \<Rightarrow> vae \<Rightarrow> fl tensor \<Rightarrow> error + fl tensor" where
  "DVAE_absolute_decode ext m z =
     ebind (split_last z (latent_dimension_psi m) (latent_dimension_s m)) (\<lambda>zz.
     let z_psi = fst zz; z_s = snd zz
     in ebind (DVAE_decode_s ext m z_psi z_s) (\<lambda>field_star.
        if has_nan field_star then Inl (AssertionError ''NaN detected field_star'')
        else if has_nan z_psi then Inl (AssertionError ''NaN detected z_psi'')
        else if has_nan z_s then Inl (AssertionError ''NaN detected z_s'')
        else ebind (size0 z_psi) (\<lambda>b.
             ebind (repeat0 b (atlas m)) (\<lambda>repeated.
             let reshaped_atlas =
                   (if clamp_atlas m
                    then tmap (fl_clamp (tol m) (1 - tol m)) repeated
                    else repeated)
             in DVAE_apply_diffeomorphism ext reshaped_atlas field_star))))"

definition DVAE_decode :: "externals \<Rightarrow> vae \<Rightarrow> fl tensor \<Rightarrow> error + fl tensor" where
  "DVAE_decode ext m z = DVAE_absolute_decode ext m z"

subsection \<open>Class DRVAE\<close>

text \<open>
  The second class repeats the constructor and the decoding methods of the first one in
  the source; they are transcribed again here, method by method. Only \<open>encode\<close> differs.
\<close>

definition DRVAE_init :: "networks \<Rightarrow> fl tensor \<Rightarrow> int \<Rightarrow> kwargs \<Rightarrow> error + vae" where
  "DRVAE_init nets atlas0 latent_dim kw =
     (let initial_atlas = \<lparr>shape = 1 # shape atlas0, elems = elems atlas0\<rparr>
      in case shape initial_atlas of
           _ # nb # gs \<Rightarrow>
             if length gs \<notin> {2, 3}
             then Inl (AssertionError ''Restricted to dimensions 2 and 3'')
             else if (2::real) powi kw_downsampling_grid kw \<notin> {1, 2, 4}
             then Inl (AssertionError ''Only supports grid downsampling by 1, 2 and 4'')
             else let dsf = 2 ^ nat (kw_downsampling_grid kw)
                  in ebind (py_float (kw_number_of_time_points kw - 1)) (\<lambda>steps.
                     if steps = 0 then Inl ZeroDivisionError
                     else Inr \<lparr>model_name = ''referentialdiffeomorphic_vae'',
                               model_type = ''diffeo'',
                               decode_count = 0,
                               clamp_atlas = (\<not> kw_unclamp_atlas kw),
                               tol = kw_tol kw,
                               isometry_constraint = kw_isometry_constraint kw,
                               nb_channels = nb,
                               grid_size = gs,
                               latent_dimension = latent_dim,
                               latent_dimension_s = latent_dim - 1,
                               latent_dimension_psi = 1,
                               downsampling_grid = dsf,
                               downsampled_grid_size = map (\<lambda>g. g div dsf) gs,
                               deformation_kernel_width = kw_deformation_kernel_width kw,
                               number_of_time_points = kw_number_of_time_points kw,
                               dt = 1 / steps,
                               noise_dimension = prod_list gs,
                               pi_mode = kw_pi_mode kw,
                               space_encoder = net_space_encoder nets,
                               time_encoder = net_time_encoder nets,
                               decoder_s = net_decoder_s nets,
                               atlas = initial_atlas\<rparr>)
         | _ \<Rightarrow> Inl IndexError)"

definition DRVAE_base_grid :: "vae \<Rightarrow> nat \<Rightarrow> error + fl tensor" where
  "DRVAE_base_grid m bts =
     (let ndim = length (grid_size m); gs = grid_size m; dgs = downsampled_grid_size m
      in ebind (meshgrid (map2 (\<lambda>elt delt. linspace 0 (real elt - 1) delt) gs dgs)) (\<lambda>ms.
         ebind (stack ms) (\<lambda>st.
         ebind (view st ([1, ndim] @ dgs)) (\<lambda>g1.
         repeat0 bts g1))))"

primrec DRVAE_integration_steps ::
    "nat \<Rightarrow> externals \<Rightarrow> vae \<Rightarrow> fl tensor \<Rightarrow> fl tensor \<Rightarrow> error + fl tensor" where
  "DRVAE_integration_steps 0 ext m grid x = Inr x"
| "DRVAE_integration_steps (Suc n) ext m grid x =
     ebind (binop fl_sub x grid) (\<lambda>d.
     ebind (batched_vector_interpolation_adaptive ext d x (downsampling_grid m)) (\<lambda>w.
     ebind (iadd x (tmap (fl_mul (Fin (dt m))) w)) (\<lambda>x'.
     if has_nan x' then Inl (AssertionError ''NaN detected in grid during integration step'')
     else DRVAE_integration_steps n ext m grid x')))"

definition DRVAE_vector_field_integration ::
    "externals \<Rightarrow> vae \<Rightarrow> fl tensor \<Rightarrow> error + fl tensor" where
  "DRVAE_vector_field_integration ext m v =
     ebind (size0 v) (\<lambda>bts.
     let ntp = number_of_time_points m
     in ebind (DRVAE_base_grid m bts) (\<lambda>grid.
        ebind (py_float_pow2 ntp) (\<lambda>scale.
        ebind (binop fl_add grid (tmap (\<lambda>e. fl_div e (Fin scale)) v)) (\<lambda>x.
        DRVAE_integration_steps (nat ntp) ext m grid x))))"

definition DRVAE_apply_diffeomorphism ::
    "externals \<Rightarrow> fl tensor \<Rightarrow> fl tensor \<Rightarrow> error + fl tensor" where
  "DRVAE_apply_diffeomorphism ext source diffeomorphism =
     (if has_nan source then Inl (AssertionError ''NaN detected in source'')
      else ebind (batched_scalar_interpolation_adaptive ext source diffeomorphism)
             (\<lambda>warped_source.
                if has_nan warped_source
                then Inl (AssertionError ''NaN detected in warped_source'')
                else Inr warped_source))"

text \<open>
  \<open>atlas_anchors\<close>, \<open>atlas_anchoring\<close> and \<open>encode\<close>: the encodings of the atlas
  (detached, which does not change its values) are subtracted from the encodings of the
  observations.
\<close>

definition DRVAE_atlas_anchors :: "vae \<Rightarrow> error + (fl tensor \<times> fl tensor)" where
  "DRVAE_atlas_anchors m =
     ebind (time_encoder m (atlas m)) (\<lambda>static_atlas_pre_latent_psi.
     ebind (space_encoder m (atlas m)) (\<lambda>static_atlas_pre_latent_s.
     Inr (static_atlas_pre_latent_psi, static_atlas_pre_latent_s)))"

definition DRVAE_atlas_anchoring ::
    "vae \<Rightarrow> fl tensor \<Rightarrow> fl tensor \<Rightarrow> error + (fl tensor \<times> fl tensor)" where
  "DRVAE_atlas_anchoring m z_psi z_s =
     ebind (DRVAE_atlas_anchors m) (\<lambda>anchors.
     ebind (binop fl_sub z_psi (fst anchors)) (\<lambda>a_psi.
     ebind (binop fl_sub z_s (snd anchors)) (\<lambda>a_s.
     Inr (a_psi, a_s))))"

definition DRVAE_encode :: "vae \<Rightarrow> fl tensor \<Rightarrow> error + (fl tensor \<times> fl tensor)" where
  "DRVAE_encode m observations =
     ebind (time_encoder m observations) (\<lambda>pre_z_psi.
     ebind (space_encoder m observations) (\<lambda>pre_z_s.
     DRVAE_atlas_anchoring m pre_z_psi pre_z_s))"

definition DRVAE_field_energy :: "nat \<Rightarrow> fl tensor \<Rightarrow> fl tensor \<Rightarrow> error + fl tensor" where
  "DRVAE_field_energy ndim v v_star = ebind (binop fl_mul v v_star) (sum_dims (ndim + 1))"

definition DRVAE_normalizer :: "real \<Rightarrow> fl tensor \<Rightarrow> fl tensor \<Rightarrow> error + fl tensor" where
  "DRVAE_normalizer tolr latent_norm_squared v_norm_squared =
     ebind (binop fl_div latent_norm_squared v_norm_squared) (\<lambda>q.
     where3 (tmap (\<lambda>l. fl_gt l (Fin tolr)) latent_norm_squared) (tmap fl_sqrt q)
            \<lparr>shape = [], elems = [Fin 0]\<rparr>)"

definition DRVAE_normalize ::
    "nat \<Rightarrow> real \<Rightarrow> fl tensor \<Rightarrow> fl tensor \<Rightarrow> fl tensor \<Rightarrow> error + fl tensor" where
  "DRVAE_normalize ndim tolr latent_norm_squared v_star v =
     ebind (DRVAE_field_energy ndim v v_star) (\<lambda>v_norm_squared.
     ebind (DRVAE_normalizer tolr latent_norm_squared v_norm_squared) (\<lambda>normalizer.
     ebind (size0 latent_norm_squared) (\<lambda>n0.
     ebind (view normalizer (n0 # replicate (ndim + 1) 1)) (\<lambda>nv.
     ebind (expand nv (shape v)) (\<lambda>ne.
     binop fl_mul v ne)))))"

definition DRVAE_velocity_field ::
    "externals \<Rightarrow> vae \<Rightarrow> fl tensor \<Rightarrow> fl tensor \<Rightarrow> error + fl tensor" where
  "DRVAE_velocity_field ext m z_psi z =
     ebind (size0 z) (\<lambda>bts.
     let ndim = length (grid_size m)
     in ebind (cat_last z_psi z) (\<lambda>z_stacked.
        ebind (view_rows z) (\<lambda>zr.
        ebind (sum_dims 1 (tmap (\<lambda>e. fl_mul e e) zr)) (\<lambda>latent_norm_squared.
        ebind (decoder_s m z_stacked) (\<lambda>v_star.
        ebind (batched_vector_smoothing ext v_star (deformation_kernel_width m) False) (\<lambda>v.
        if isometry_constraint m
        then DRVAE_normalize ndim (tol m) latent_norm_squared v_star v
        else Inr v))))))"

definition DRVAE_decode_s ::
    "externals \<Rightarrow> vae \<Rightarrow> fl tensor \<Rightarrow> fl tensor \<Rightarrow> error + fl tensor" where
  "DRVAE_decode_s ext m z_psi z =
     ebind (DRVAE_velocity_field ext m z_psi z) (\<lambda>v.
     if has_nan v then Inl (AssertionError ''NaN detected v'')
     else DRVAE_vector_field_integration ext m v)"

definition DRVAE_absolute_decode :: "externals \<Rightarrow> vae \<Rightarrow> fl tensor \<Rightarrow> error + fl tensor" where
  "DRVAE_absolute_decode ext m z =
     ebind (split_last z (latent_dimension_psi m) (latent_dimension_s m)) (\<lambda>zz.
     let z_psi = fst zz; z_s = snd zz
     in ebind (DRVAE_decode_s ext m z_psi z_s) (\<lambda>field_star.
        if has_nan field_star then Inl (AssertionError ''NaN detected field_star'')
        else if has_nan z_psi then Inl (AssertionError ''NaN detected z_psi'')
        else if has_nan z_s then Inl (AssertionError ''NaN detected z_s'')
        else ebind (size0 z_psi) (\<lambda>b.
             ebind (repeat0 b (atlas m)) (\<lambda>repeated.
             let reshaped_atlas =
                   (if clamp_atlas m
                    then tmap (fl_clamp (tol m) (1 - tol m)) repeated
                    else repeated)
             in DRVAE_apply_diffeomorphism ext reshaped_atlas field_star))))"

definition DRVAE_decode :: "externals \<Rightarrow> vae \<Rightarrow> fl tensor \<Rightarrow> error + fl tensor" where
  "DRVAE_decode ext m z = DRVAE_absolute_decode ext m z"

section \<open>Auxiliary definitions\<close>

text \<open>The elements of the base grid for given full and downsampled sizes.\<close>

definition grid_lins :: "nat list \<Rightarrow> nat list \<Rightarrow> fl list list" where
  "grid_lins gs dgs = map2 (\<lambda>elt delt. linspace 0 (real elt - 1) delt) gs dgs"

definition grid_axes :: "nat list \<Rightarrow> nat list \<Rightarrow> fl list list" where
  "grid_axes gs dgs =
     map (\<lambda>k. map (\<lambda>j. grid_lins gs dgs ! k ! (unravel dgs j ! k)) [0..<prod_list dgs])
         [0..<length dgs]"

section \<open>Concrete configurations\<close>

text \<open>
  Small concrete inputs on which the definitions are evaluated: networks that return
  their input, an atlas of constant intensity, and a configuration with a given
  downsampling exponent and number of time points.
\<close>

definition id_nets :: networks where
  "id_nets = \<lparr>net_space_encoder = Inr, net_time_encoder = Inr, net_decoder_s = Inr\<rparr>"

definition const_atlas :: "nat list \<Rightarrow> fl tensor" where
  "const_atlas s = \<lparr>shape = s, elems = replicate (prod_list s) (Fin (1 / 2))\<rparr>"

definition config :: "int \<Rightarrow> int \<Rightarrow> kwargs" where
  "config e ntp =
     \<lparr>kw_unclamp_atlas = False, kw_tol = 1 / 100000, kw_isometry_constraint = False,
      kw_downsampling_grid = e, kw_deformation_kernel_width = 1,
      kw_number_of_time_points = ntp, kw_pi_mode = ''maxpooling''\<rparr>"

definition grid_config :: "vae \<Rightarrow> nat list \<times> nat \<times> nat list" where
  "grid_config m = (grid_size m, downsampling_grid m, downsampled_grid_size m)"

definition id_ext :: externals where
  "id_ext = \<lparr>batched_vector_interpolation_adaptive = (\<lambda>d x n. Inr d),
             batched_scalar_interpolation_adaptive = (\<lambda>source diffeomorphism. Inr source),
             batched_vector_smoothing = (\<lambda>v_star width scaled. Inr v_star)\<rparr>"

definition nan_field :: "fl tensor" where
  "nan_field = \<lparr>shape = [1, 2, 2, 2], elems = NaN # replicate 7 (Fin 0)\<rparr>"

definition nan_nets :: networks where
  "nan_nets = \<lparr>net_space_encoder = Inr, net_time_encoder = Inr,
               net_decoder_s = (\<lambda>z. Inr nan_field)\<rparr>"

definition latent :: "real list \<Rightarrow> fl tensor" where
  "latent zs = \<lparr>shape = [1, length zs], elems = map Fin zs\<rparr>"

text \<open>
  The integration of the zero velocity field of a batch, for the model constructed from
  an atlas, a downsampling exponent and a number of time points.
\<close>

definition integrate_zero_field :: "fl tensor \<Rightarrow> int \<Rightarrow> int \<Rightarrow> nat \<Rightarrow> error + fl tensor" where
  "integrate_zero_field atlas0 e ntp bts =
     ebind (DVAE_init id_nets atlas0 4 (config e ntp)) (\<lambda>m.
     DVAE_vector_field_integration id_ext m
       (zeros (bts # length (grid_size m) # downsampled_grid_size m)))"

text \<open>
  The base grid of a batch for such a model, the element of a tensor at a flat index,
  and the test whether a tensor element is an integer.
\<close>

definition base_grid_of :: "fl tensor \<Rightarrow> int \<Rightarrow> int \<Rightarrow> nat \<Rightarrow> error + fl tensor" where
  "base_grid_of atlas0 e ntp bts =
     ebind (DVAE_init id_nets atlas0 4 (config e ntp)) (\<lambda>m. DVAE_base_grid m bts)"

definition elem_at :: "nat \<Rightarrow> 'a tensor \<Rightarrow> 'a" where
  "elem_at k t = elems t ! k"

fun fl_is_integer :: "fl \<Rightarrow> bool" where
  "fl_is_integer (Fin r) = (real_of_int \<lfloor>r\<rfloor> = r)"
| "fl_is_integer _ = False"

text \<open>
  A one-dimensional tensor of finite numbers, and a field for a batch of one over a grid
  of a single point, with two components equal to 1.
\<close>

definition vec :: "real list \<Rightarrow> fl tensor" where
  "vec zs = \<lparr>shape = [length zs], elems = map Fin zs\<rparr>"




text \<open>
  A configuration with the isometry constraint on, networks whose velocity decoder
  returns a given field, and the velocity field that \<open>decode_s\<close> forms from a latent
  code, for the model constructed over an atlas of a single point with this
  configuration and the smoother of \<open>id_ext\<close>.
\<close>

definition iso_config :: kwargs where
  "iso_config = (config 0 5)\<lparr>kw_isometry_constraint := True\<rparr>"

definition field_nets :: "fl tensor \<Rightarrow> networks" where
  "field_nets f = \<lparr>net_space_encoder = Inr, net_time_encoder = Inr,
                   net_decoder_s = (\<lambda>z. Inr f)\<rparr>"


text \<open>
  The squared norm of the latent code of each batch element, as \<open>decode_s\<close> computes it,
  and the energy of the velocity field that \<open>decode_s\<close> forms, paired with the momentum
  that the decoder returned.
\<close>

definition latent_norm_squared :: "fl tensor \<Rightarrow> error + fl tensor" where
  "latent_norm_squared z = ebind (view_rows z) (\<lambda>zr. sum_dims 1 (tmap (\<lambda>e. fl_mul e e) zr))"


section \<open>Basic facts\<close>

lemma ebind_Inr [simp]: "ebind (Inr v) f = f v"
  by (simp add: ebind_def)

lemma ebind_Inl [simp]: "ebind (Inl e) f = Inl e"
  by (simp add: ebind_def)

lemma ebind_eq_Inr: "(ebind r f = Inr y) = (\<exists>v. r = Inr v \<and> f v = Inr y)"
  by (cases r) auto

lemma length_unravel [simp]: "length (unravel s k) = length s"
  by (induction s arbitrary: k) auto

lemma unravel_less:
  "k < prod_list s \<Longrightarrow> i < length s \<Longrightarrow> unravel s k ! i < s ! i"
proof (induction s arbitrary: k i)
  case Nil
  then show ?case by simp
next
  case (Cons d ds)
  from Cons.prems(1) have pos: "0 < prod_list ds" by (cases "prod_list ds = 0") auto
  show ?case
  proof (cases i)
    case 0
    from Cons.prems(1) have "k < d * prod_list ds" by simp
    then have "k div prod_list ds < d" by (rule less_mult_imp_div_less)
    with 0 show ?thesis by simp
  next
    case (Suc j)
    with Cons.prems(2) have "j < length ds" by simp
    moreover have "k mod prod_list ds < prod_list ds" using pos by simp
    ultimately show ?thesis using Cons.IH Suc by simp
  qed
qed

lemma ravel_unravel: "k < prod_list s \<Longrightarrow> ravel s (unravel s k) = k"
proof (induction s arbitrary: k)
  case Nil
  then show ?case by simp
next
  case (Cons d ds)
  from Cons.prems have pos: "0 < prod_list ds" by (cases "prod_list ds = 0") auto
  then have "ravel ds (unravel ds (k mod prod_list ds)) = k mod prod_list ds"
    using Cons.IH by simp
  then show ?case by simp
qed

lemma bidx_unravel: "k < prod_list s \<Longrightarrow> bidx s (unravel s k) = unravel s k"
proof -
  assume k: "k < prod_list s"
  have "map2 (\<lambda>d i. if d = 1 then 0 else i) s (unravel s k) = unravel s k"
  proof (rule nth_equalityI)
    show "length (map2 (\<lambda>d i. if d = 1 then 0 else i) s (unravel s k)) = length (unravel s k)"
      by simp
  next
    fix i assume "i < length (map2 (\<lambda>d i. if d = 1 then 0 else i) s (unravel s k))"
    then have i: "i < length s" by simp
    from unravel_less[OF k i] have "s ! i = 1 \<Longrightarrow> unravel s k ! i = 0" by simp
    with i show "map2 (\<lambda>d i. if d = 1 then 0 else i) s (unravel s k) ! i = unravel s k ! i"
      by simp
  qed
  then show ?thesis by (simp add: bidx_def)
qed

lemma bget_same_shape: "k < prod_list (shape t) \<Longrightarrow> bget t (shape t) k = elems t ! k"
  by (simp add: bget_def bidx_unravel ravel_unravel)

lemma bshape_rev_same: "bshape_rev xs xs = Some xs"
  by (induction xs) auto

lemma broadcast_shapes_same [simp]: "broadcast_shapes s s = Some s"
  by (simp add: broadcast_shapes_def bshape_rev_same)

lemma binop_same_shape:
  assumes "shape a = shape b"
  shows "binop f a b
           = Inr \<lparr>shape = shape a,
                  elems = map (\<lambda>k. f (elems a ! k) (elems b ! k)) [0..<prod_list (shape a)]\<rparr>"
  using assms bget_same_shape[of _ a] bget_same_shape[of _ b]
  by (simp add: binop_def)

lemma binop_same_shape_wf:
  assumes "shape a = shape b" and "wf_tensor a" and "wf_tensor b"
  shows "binop f a b = Inr \<lparr>shape = shape a, elems = map2 f (elems a) (elems b)\<rparr>"
proof -
  have "map (\<lambda>k. f (elems a ! k) (elems b ! k)) [0..<prod_list (shape a)]
          = map2 f (elems a) (elems b)"
    using assms by (intro nth_equalityI) (auto simp: wf_tensor_def)
  then show ?thesis by (simp add: binop_same_shape[OF assms(1)])
qed

lemma fl_add_zero [simp]: "fl_add x (Fin 0) = x"
  by (cases x) auto

lemma fl_sub_self: "fl_isfinite x \<Longrightarrow> fl_sub x x = Fin 0"
  by (cases x) (auto simp: fl_sub_def)

lemma fl_add_nan [simp]: "fl_isnan x \<Longrightarrow> fl_isnan (fl_add x y)"
  by (cases x) auto

lemma fl_div_nan [simp]: "fl_isnan x \<Longrightarrow> fl_isnan (fl_div x y)"
  by (cases x) auto

lemma iadd_elems:
  assumes "iadd x y = Inr x'"
  shows "shape x' = shape x"
    and "k < prod_list (shape x) \<Longrightarrow>
           elems x' ! k = fl_add (elems x ! k) (bget y (shape x) k)"
    and "length (elems x') = prod_list (shape x)"
  using assms
  by (auto simp: iadd_def binop_def bget_same_shape split: option.splits if_splits)

section \<open>The constructor\<close>

lemma pow2_small: "((2::real) ^ n \<in> {1, 2, 4}) = (n \<in> {0, 1, 2})"
proof (cases "n < 3")
  case True
  then have "n = 0 \<or> n = 1 \<or> n = 2" by arith
  then show ?thesis by auto
next
  case False
  then obtain k where k: "n = 3 + k" using le_Suc_ex[of 3 n] by auto
  have "(8::real) \<le> 2 ^ n" unfolding k power_add by (simp add: self_le_power)
  with False show ?thesis by auto
qed

lemma powi_check: "((2::real) powi e \<in> {1, 2, 4}) = (e \<in> {0, 1, 2})"
proof (cases "0 \<le> e")
  case True
  then have "(2::real) powi e = 2 ^ nat e" by (simp add: power_int_def)
  moreover have "(nat e \<in> {0, 1, 2}) = (e \<in> {0, 1, 2})" using True by auto
  ultimately show ?thesis using pow2_small[of "nat e"] by simp
next
  case False
  then have "(2::real) powi e = (1 / 2) ^ nat (- e)" by (simp add: power_int_def)
  moreover have "((1::real) / 2) ^ nat (- e) \<le> (1 / 2) ^ 1"
    using False by (intro power_decreasing) auto
  ultimately have "(2::real) powi e \<le> 1 / 2" by simp
  with False show ?thesis by auto
qed

lemma py_float_in_range: "\<bar>n\<bar> < 2 ^ 1023 \<Longrightarrow> py_float n = Inr (real_of_int n)"
proof -
  assume "\<bar>n\<bar> < 2 ^ 1023"
  moreover have "(2::int) ^ 1023 \<le> 2 ^ 1024 - 2 ^ 970" by simp
  ultimately show ?thesis by (simp add: py_float_def)
qed

lemma py_float_pow2_small:
  assumes "k < 1024"
  shows "py_float_pow2 k = Inr (2 powi k)"
proof (cases "0 \<le> k")
  case True
  with assms have "nat k < 1024" by simp
  then have "(2::int) ^ nat k < 2 ^ 1024" by (intro power_strict_increasing) auto
  moreover have "(2::int) ^ nat k \<le> 2 ^ 1023"
    using \<open>nat k < 1024\<close> by (intro power_increasing) auto
  ultimately have "\<bar>(2::int) ^ nat k\<bar> < 2 ^ 1024 - 2 ^ 970" by simp
  with True show ?thesis by (simp add: py_float_pow2_def py_float_def power_int_def)
next
  case False
  then show ?thesis by (simp add: py_float_pow2_def)
qed

lemma py_float_pow2_large:
  assumes "1024 \<le> k"
  shows "py_float_pow2 k = Inl OverflowError"
proof -
  from assms have "1024 \<le> nat k" by simp
  then have "(2::int) ^ 1024 \<le> 2 ^ nat k" by (intro power_increasing) auto
  then have "2 ^ 1024 - 2 ^ 970 \<le> \<bar>(2::int) ^ nat k\<bar>" by simp
  with assms show ?thesis by (simp add: py_float_pow2_def py_float_def)
qed

lemma DVAE_init_eq:
  "DVAE_init nets atlas0 ld kw =
     (case shape atlas0 of
        [] \<Rightarrow> Inl IndexError
      | nb # gs \<Rightarrow>
          if length gs \<notin> {2, 3} then Inl (AssertionError ''Restricted to dimensions 2 and 3'')
          else if kw_downsampling_grid kw \<notin> {0, 1, 2}
          then Inl (AssertionError ''Only supports grid downsampling by 1, 2 and 4'')
          else if 2 ^ 1024 - 2 ^ 970 \<le> \<bar>kw_number_of_time_points kw - 1\<bar> then Inl OverflowError
          else if kw_number_of_time_points kw = 1 then Inl ZeroDivisionError
          else Inr \<lparr>model_name = ''referentialdiffeomorphic_vae'',
                    model_type = ''diffeo'',
                    decode_count = 0,
                    clamp_atlas = (\<not> kw_unclamp_atlas kw),
                    tol = kw_tol kw,
                    isometry_constraint = kw_isometry_constraint kw,
                    nb_channels = nb,
                    grid_size = gs,
                    latent_dimension = ld,
                    latent_dimension_s = ld - 1,
                    latent_dimension_psi = 1,
                    downsampling_grid = 2 ^ nat (kw_downsampling_grid kw),
                    downsampled_grid_size = map (\<lambda>g. g div 2 ^ nat (kw_downsampling_grid kw)) gs,
                    deformation_kernel_width = kw_deformation_kernel_width kw,
                    number_of_time_points = kw_number_of_time_points kw,
                    dt = 1 / real_of_int (kw_number_of_time_points kw - 1),
                    noise_dimension = prod_list gs,
                    pi_mode = kw_pi_mode kw,
                    space_encoder = net_space_encoder nets,
                    time_encoder = net_time_encoder nets,
                    decoder_s = net_decoder_s nets,
                    atlas = \<lparr>shape = 1 # shape atlas0, elems = elems atlas0\<rparr>\<rparr>)"
  unfolding DVAE_init_def Let_def powi_check py_float_def
  by (simp split: list.splits)

lemma DRVAE_init_eq: "DRVAE_init = DVAE_init"
  by (simp add: fun_eq_iff DVAE_init_def DRVAE_init_def)

lemma init_small_config:
  assumes "shape atlas0 = nb # gs" and "length gs \<in> {2, 3}" and "e \<in> {0, 1, 2}"
    and "\<bar>ntp - 1\<bar> < 2 ^ 1023" and "ntp \<noteq> 1"
  shows "\<exists>m. DVAE_init nets atlas0 ld (config e ntp) = Inr m
           \<and> grid_size m = gs \<and> downsampling_grid m = 2 ^ nat e
           \<and> downsampled_grid_size m = map (\<lambda>g. g div 2 ^ nat e) gs
           \<and> number_of_time_points m = ntp \<and> \<not> isometry_constraint m
           \<and> space_encoder m = net_space_encoder nets
           \<and> time_encoder m = net_time_encoder nets
           \<and> decoder_s m = net_decoder_s nets
           \<and> atlas m = \<lparr>shape = 1 # shape atlas0, elems = elems atlas0\<rparr>"
proof -
  have "(2::int) ^ 1023 \<le> 2 ^ 1024 - 2 ^ 970" by simp
  with assms(4) have "\<not> 2 ^ 1024 - 2 ^ 970 \<le> \<bar>ntp - 1\<bar>" by linarith
  with assms(1,2,3,5) show ?thesis
    unfolding DVAE_init_eq by (simp add: config_def)
qed

text \<open>
  Claim C5, as the code has it. The configuration value \<open>downsampling_grid\<close> is the
  exponent of the factor, not the factor: the constructor computes \<open>2 ** downsampling_grid\<close>
  and asserts that the result is 1, 2 or 4. For an atlas with a channel dimension, both
  constructors fail the first assertion exactly when the number of spatial dimensions is
  not 2 or 3, fail the second assertion exactly when that number is 2 or 3 and the
  configuration value is not 0, 1 or 2, and return a model exactly when both assertions
  pass and \<open>number_of_time_points - 1\<close> is neither zero nor too large for a float.
\<close>

theorem init_configuration_checks:
  assumes "shape atlas0 = nb # gs"
  shows "(DVAE_init nets atlas0 ld kw = Inl (AssertionError ''Restricted to dimensions 2 and 3''))
           = (length gs \<notin> {2, 3})
       \<and> (DVAE_init nets atlas0 ld kw
            = Inl (AssertionError ''Only supports grid downsampling by 1, 2 and 4''))
           = (length gs \<in> {2, 3} \<and> kw_downsampling_grid kw \<notin> {0, 1, 2})
       \<and> (\<exists>m. DVAE_init nets atlas0 ld kw = Inr m)
           = (length gs \<in> {2, 3} \<and> kw_downsampling_grid kw \<in> {0, 1, 2}
              \<and> kw_number_of_time_points kw \<noteq> 1
              \<and> \<bar>kw_number_of_time_points kw - 1\<bar> < 2 ^ 1024 - 2 ^ 970)
       \<and> (DRVAE_init nets atlas0 ld kw = Inl (AssertionError ''Restricted to dimensions 2 and 3''))
           = (length gs \<notin> {2, 3})
       \<and> (DRVAE_init nets atlas0 ld kw
            = Inl (AssertionError ''Only supports grid downsampling by 1, 2 and 4''))
           = (length gs \<in> {2, 3} \<and> kw_downsampling_grid kw \<notin> {0, 1, 2})
       \<and> (\<exists>m. DRVAE_init nets atlas0 ld kw = Inr m)
           = (length gs \<in> {2, 3} \<and> kw_downsampling_grid kw \<in> {0, 1, 2}
              \<and> kw_number_of_time_points kw \<noteq> 1
              \<and> \<bar>kw_number_of_time_points kw - 1\<bar> < 2 ^ 1024 - 2 ^ 970)"
  unfolding DRVAE_init_eq DVAE_init_eq using assms by auto

theorem init_configuration_checks_witness:
  "shape (const_atlas [1, 2, 2]) = 1 # [2, 2]
   \<and> (\<exists>m. DVAE_init id_nets (const_atlas [1, 2, 2]) 4 (config 1 5) = Inr m)
   \<and> (\<exists>m. DRVAE_init id_nets (const_atlas [1, 2, 2]) 4 (config 1 5) = Inr m)"
  using init_configuration_checks [of "const_atlas [1, 2, 2]" 1 "[2, 2]" id_nets 4 "config 1 5"]
  by (simp add: const_atlas_def config_def)

text \<open>
  Claim C5 as stated fails: the configuration value 4 is rejected although it is in
  \<open>{1, 2, 4}\<close>, and the value 0 is accepted (factor 1) although it is not.
\<close>

theorem downsampling_value_four_rejected:
  "DVAE_init id_nets (const_atlas [1, 2, 2]) 4 (config 4 5)
     = Inl (AssertionError ''Only supports grid downsampling by 1, 2 and 4'')
   \<and> map_sum id grid_config (DVAE_init id_nets (const_atlas [1, 2, 2]) 4 (config 0 5))
     = Inr ([2, 2], 1, [2, 2])"
  by (simp add: DVAE_init_eq const_atlas_def config_def grid_config_def)



text \<open>
  Claim C6, as the code has it. The constructor computes the downsampled grid size by
  floor division and checks no divisibility: for every constructed model the factor is
  1, 2 or 4, each downsampled size \<open>d\<close> of a grid size \<open>g\<close> satisfies
  \<open>d * factor \<le> g < d * factor + factor\<close>, and \<open>d * factor = g\<close> holds exactly when
  the factor divides \<open>g\<close>.
\<close>

theorem init_floor_division:
  assumes "DVAE_init nets atlas0 ld kw = Inr m \<or> DRVAE_init nets atlas0 ld kw = Inr m"
  shows "downsampling_grid m \<in> {1, 2, 4}
       \<and> downsampled_grid_size m = map (\<lambda>g. g div downsampling_grid m) (grid_size m)
       \<and> list_all2 (\<lambda>g d. d * downsampling_grid m \<le> g \<and> g < d * downsampling_grid m + downsampling_grid m
                           \<and> ((d * downsampling_grid m = g) = (downsampling_grid m dvd g)))
           (grid_size m) (downsampled_grid_size m)"
proof -
  from assms have init: "DVAE_init nets atlas0 ld kw = Inr m" by (simp add: DRVAE_init_eq)
  then obtain nb gs where sh: "shape atlas0 = nb # gs"
    by (cases "shape atlas0") (auto simp: DVAE_init_eq)
  from init sh have e: "kw_downsampling_grid kw \<in> {0, 1, 2}"
    and dsf: "downsampling_grid m = 2 ^ nat (kw_downsampling_grid kw)"
    and dgs: "downsampled_grid_size m = map (\<lambda>g. g div downsampling_grid m) (grid_size m)"
    by (auto simp: DVAE_init_eq split: if_splits)
  from e dsf have d124: "downsampling_grid m \<in> {1, 2, 4}" by auto
  then have pos: "0 < downsampling_grid m" by auto
  have "list_all2 (\<lambda>g d. d * downsampling_grid m \<le> g \<and> g < d * downsampling_grid m + downsampling_grid m
                           \<and> ((d * downsampling_grid m = g) = (downsampling_grid m dvd g)))
           (grid_size m) (map (\<lambda>g. g div downsampling_grid m) (grid_size m))"
    unfolding list_all2_map2
  proof (rule list_all2_same[THEN iffD2], intro ballI conjI)
    fix g assume "g \<in> set (grid_size m)"
    show "g div downsampling_grid m * downsampling_grid m \<le> g" by simp
    show "g < g div downsampling_grid m * downsampling_grid m + downsampling_grid m"
      using pos by (metis add.commute dividend_less_div_times mult.commute)
    show "(g div downsampling_grid m * downsampling_grid m = g) = (downsampling_grid m dvd g)"
      by (metis dvd_div_mult_self dvd_triv_right)
  qed
  with d124 dgs show ?thesis by simp
qed

theorem init_floor_division_witness:
  "DVAE_init id_nets (const_atlas [1, 4, 4]) 4 (config 1 5)
     = DRVAE_init id_nets (const_atlas [1, 4, 4]) 4 (config 1 5)
   \<and> map_sum id grid_config (DVAE_init id_nets (const_atlas [1, 4, 4]) 4 (config 1 5))
      = Inr ([4, 4], 2, [2, 2])"
proof -
  obtain m where m: "DVAE_init id_nets (const_atlas [1, 4, 4]) 4 (config 1 5) = Inr m"
    by (simp add: DVAE_init_eq const_atlas_def config_def)
  from init_floor_division [of id_nets "const_atlas [1, 4, 4]" 4 "config 1 5" m] m
  have "downsampled_grid_size m = map (\<lambda>g. g div downsampling_grid m) (grid_size m)" by simp
  then show ?thesis using m
    by (auto simp: DRVAE_init_eq DVAE_init_eq const_atlas_def config_def grid_config_def)
qed

text \<open>
  Claim C6 as stated fails: a 5 by 5 atlas with factor 2 is accepted, with downsampled
  size 2 by 2, and 2 does not divide 5.
\<close>

theorem odd_grid_accepted:
  "map_sum id grid_config (DVAE_init id_nets (const_atlas [1, 5, 5]) 4 (config 1 5))
     = Inr ([5, 5], 2, [2, 2])
   \<and> \<not> (2::nat) dvd 5 \<and> (2::nat) * 2 \<noteq> 5"
  by (simp add: DVAE_init_eq const_atlas_def config_def grid_config_def)

section \<open>The two classes\<close>

lemma DRVAE_base_grid_eq: "DRVAE_base_grid = DVAE_base_grid"
  by (simp add: fun_eq_iff DVAE_base_grid_def DRVAE_base_grid_def)

lemma DRVAE_integration_steps_eq:
  "DRVAE_integration_steps n ext m grid x = DVAE_integration_steps n ext m grid x"
  by (induction n arbitrary: x) (simp_all cong: if_cong)

lemma DRVAE_vector_field_integration_eq:
  "DRVAE_vector_field_integration = DVAE_vector_field_integration"
  by (simp add: fun_eq_iff DVAE_vector_field_integration_def DRVAE_vector_field_integration_def
      DRVAE_base_grid_eq DRVAE_integration_steps_eq)

lemma DRVAE_apply_diffeomorphism_eq: "DRVAE_apply_diffeomorphism = DVAE_apply_diffeomorphism"
  by (simp add: fun_eq_iff DVAE_apply_diffeomorphism_def DRVAE_apply_diffeomorphism_def)

lemma DRVAE_field_energy_eq: "DRVAE_field_energy = DVAE_field_energy"
  by (simp add: fun_eq_iff DVAE_field_energy_def DRVAE_field_energy_def)

lemma DRVAE_normalizer_eq: "DRVAE_normalizer = DVAE_normalizer"
  by (simp add: fun_eq_iff DVAE_normalizer_def DRVAE_normalizer_def)

lemma DRVAE_normalize_eq: "DRVAE_normalize = DVAE_normalize"
  by (simp add: fun_eq_iff DVAE_normalize_def DRVAE_normalize_def DRVAE_field_energy_eq
      DRVAE_normalizer_eq)

lemma DRVAE_velocity_field_eq: "DRVAE_velocity_field = DVAE_velocity_field"
  by (simp add: fun_eq_iff DVAE_velocity_field_def DRVAE_velocity_field_def DRVAE_normalize_eq
      cong: if_cong)

lemma DRVAE_decode_s_eq: "DRVAE_decode_s = DVAE_decode_s"
  by (simp add: fun_eq_iff DVAE_decode_s_def DRVAE_decode_s_def DRVAE_velocity_field_eq
      DRVAE_vector_field_integration_eq cong: if_cong)

lemma DRVAE_absolute_decode_eq: "DRVAE_absolute_decode = DVAE_absolute_decode"
  by (simp add: fun_eq_iff DVAE_absolute_decode_def DRVAE_absolute_decode_def DRVAE_decode_s_eq
      DRVAE_apply_diffeomorphism_eq cong: if_cong)

text \<open>
  Claim C4. The constructor and the methods \<open>decode\<close>, \<open>absolute_decode\<close>,
  \<open>decode_s\<close>, \<open>vector_field_integration\<close> and \<open>apply_diffeomorphism\<close> of the
  two classes are the same functions, and \<open>encode\<close> of the second class is \<open>encode\<close>
  of the first followed by the anchoring.
\<close>

theorem decode_pipelines_coincide:
  "DRVAE_init = DVAE_init
   \<and> DRVAE_decode = DVAE_decode
   \<and> DRVAE_absolute_decode = DVAE_absolute_decode
   \<and> DRVAE_decode_s = DVAE_decode_s
   \<and> DRVAE_vector_field_integration = DVAE_vector_field_integration
   \<and> DRVAE_apply_diffeomorphism = DVAE_apply_diffeomorphism
   \<and> (\<forall>m observations.
        DRVAE_encode m observations
          = ebind (DVAE_encode m observations) (\<lambda>z. DRVAE_atlas_anchoring m (fst z) (snd z)))"
proof -
  have "DRVAE_init = DVAE_init"
    by (simp add: fun_eq_iff DVAE_init_def DRVAE_init_def)
  moreover have "DRVAE_decode = DVAE_decode"
    by (simp add: fun_eq_iff DVAE_decode_def DRVAE_decode_def DRVAE_absolute_decode_eq)
  moreover have "DRVAE_encode m observations
          = ebind (DVAE_encode m observations) (\<lambda>z. DRVAE_atlas_anchoring m (fst z) (snd z))"
    for m observations
    by (cases "time_encoder m observations"; cases "space_encoder m observations")
       (simp_all add: DVAE_encode_def DRVAE_encode_def)
  ultimately show ?thesis
    by (simp add: DRVAE_absolute_decode_eq DRVAE_decode_s_eq DRVAE_vector_field_integration_eq
        DRVAE_apply_diffeomorphism_eq)
qed

theorem decode_pipelines_coincide_witness:
  "DRVAE_decode id_ext = DVAE_decode id_ext
   \<and> DRVAE_vector_field_integration id_ext = DVAE_vector_field_integration id_ext"
  using decode_pipelines_coincide by simp

section \<open>Anchoring\<close>

lemma binop_sub_self:
  assumes "wf_tensor a" and "all_finite a"
  shows "binop fl_sub a a = Inr (zeros (shape a))"
proof -
  have "map (\<lambda>k. fl_sub (elems a ! k) (elems a ! k)) [0..<prod_list (shape a)]
          = replicate (prod_list (shape a)) (Fin 0)"
    using assms
    by (intro nth_equalityI) (auto simp: wf_tensor_def all_finite_def list_all_length fl_sub_self)
  then show ?thesis by (simp add: binop_same_shape zeros_def)
qed

text \<open>
  Claim C3. When the encodings of the atlas are well-formed tensors of finite numbers,
  \<open>encode\<close> of the second class maps the atlas to zero in both components: each
  encoding is subtracted from itself.
\<close>

theorem anchored_atlas_encodes_to_zero:
  assumes "time_encoder m (atlas m) = Inr a" and "space_encoder m (atlas m) = Inr s"
    and "wf_tensor a" and "all_finite a" and "wf_tensor s" and "all_finite s"
  shows "DRVAE_encode m (atlas m) = Inr (zeros (shape a), zeros (shape s))"
  using assms
  by (simp add: DRVAE_encode_def DRVAE_atlas_anchoring_def DRVAE_atlas_anchors_def binop_sub_self)

theorem anchored_atlas_encodes_to_zero_witness:
  "\<exists>m. DRVAE_init id_nets (const_atlas [1, 2, 2]) 4 (config 0 5) = Inr m
       \<and> time_encoder m (atlas m) = Inr (atlas m) \<and> space_encoder m (atlas m) = Inr (atlas m)
       \<and> wf_tensor (atlas m) \<and> all_finite (atlas m)
       \<and> DRVAE_encode m (atlas m) = Inr (zeros [1, 1, 2, 2], zeros [1, 1, 2, 2])"
proof -
  obtain m where m: "DRVAE_init id_nets (const_atlas [1, 2, 2]) 4 (config 0 5) = Inr m"
    by (simp add: DRVAE_init_eq DVAE_init_eq const_atlas_def config_def)
  then have enc: "time_encoder m (atlas m) = Inr (atlas m)"
      "space_encoder m (atlas m) = Inr (atlas m)"
    and wf: "wf_tensor (atlas m)" and fin: "all_finite (atlas m)"
    and sh: "shape (atlas m) = [1, 1, 2, 2]"
    by (auto simp: DRVAE_init_eq DVAE_init_eq const_atlas_def config_def id_nets_def
        wf_tensor_def all_finite_def list_all_iff)
  from anchored_atlas_encodes_to_zero[OF enc wf fin wf fin] m enc wf fin sh
  show ?thesis by simp
qed

section \<open>The base grid\<close>

lemma length_linspace [simp]: "length (linspace a b n) = n"
  by (simp add: linspace_def)

lemma linspace_finite: "x \<in> set (linspace a b n) \<Longrightarrow> fl_isfinite x"
  by (auto simp: linspace_def split: if_splits)

lemma length_concat_replicate: "length (concat (replicate n xs)) = n * length xs"
  by (induction n) auto

lemma length_concat_uniform:
  "\<forall>xs \<in> set xss. length xs = p \<Longrightarrow> length (concat xss) = length xss * p"
  by (induction xss) auto

lemma nth_concat_uniform:
  "\<forall>xs \<in> set xss. length xs = p \<Longrightarrow> k < length xss \<Longrightarrow> j < p \<Longrightarrow>
     concat xss ! (k * p + j) = xss ! k ! j"
proof (induction xss arbitrary: k)
  case Nil
  then show ?case by simp
next
  case (Cons xs xss)
  show ?case
  proof (cases k)
    case 0
    with Cons.prems show ?thesis by (simp add: nth_append)
  next
    case (Suc k')
    with Cons.prems have "concat xss ! (k' * p + j) = xss ! k' ! j"
      by (intro Cons.IH) auto
    with Cons.prems Suc show ?thesis by (simp add: nth_append)
  qed
qed

lemma grid_lins_props:
  assumes "length gs = length dgs"
  shows "length (grid_lins gs dgs) = length dgs"
    and "map length (grid_lins gs dgs) = dgs"
    and "k < length dgs \<Longrightarrow> grid_lins gs dgs ! k = linspace 0 (real (gs ! k) - 1) (dgs ! k)"
  using assms by (auto simp: grid_lins_def intro: nth_equalityI)

lemma base_grid_constructed:
  assumes "length (grid_size m) = length (downsampled_grid_size m)" and "grid_size m \<noteq> []"
  shows "DVAE_base_grid m bts
           = Inr \<lparr>shape = bts # length (grid_size m) # downsampled_grid_size m,
                  elems = concat (replicate bts
                            (concat (grid_axes (grid_size m) (downsampled_grid_size m))))\<rparr>"
proof -
  let ?gs = "grid_size m" and ?dgs = "downsampled_grid_size m"
  let ?ms = "map (\<lambda>k. \<lparr>shape = ?dgs,
                        elems = map (\<lambda>j. grid_lins ?gs ?dgs ! k ! (unravel ?dgs j ! k))
                                    [0..<prod_list ?dgs]\<rparr>) [0..<length ?dgs]"
  from assms have dgs_ne: "?dgs \<noteq> []" by auto
  then have ne: "grid_lins ?gs ?dgs \<noteq> []"
    using grid_lins_props(1)[OF assms(1)] by auto
  have mesh: "meshgrid (grid_lins ?gs ?dgs) = Inr ?ms"
    using ne grid_lins_props(1,2)[OF assms(1)] by (simp add: meshgrid_def Let_def)
  from dgs_ne have ms_ne: "?ms \<noteq> []" by simp
  have hd_shape: "shape (hd ?ms) = ?dgs"
    using dgs_ne by (simp add: hd_map upt_conv_Cons)
  have el: "map elems ?ms = grid_axes ?gs ?dgs"
    by (simp add: grid_axes_def comp_def)
  have "stack ?ms = Inr \<lparr>shape = length ?ms # shape (hd ?ms), elems = concat (map elems ?ms)\<rparr>"
    unfolding stack_def using ms_ne hd_shape by auto
  then have st: "stack ?ms = Inr \<lparr>shape = length ?dgs # ?dgs,
                                  elems = concat (grid_axes ?gs ?dgs)\<rparr>"
    unfolding el hd_shape by simp
  show ?thesis
    unfolding DVAE_base_grid_def Let_def grid_lins_def[symmetric] mesh ebind_Inr st
    using assms(1) by (simp add: view_def repeat0_def)
qed

lemma grid_axes_length:
  "length (concat (grid_axes gs dgs)) = length dgs * prod_list dgs"
  by (rule trans[OF length_concat_uniform[where p = "prod_list dgs"]])
     (auto simp: grid_axes_def)

lemma grid_axes_finite:
  assumes "length gs = length dgs" and "x \<in> set (concat (grid_axes gs dgs))"
  shows "fl_isfinite x"
proof -
  from assms(2) obtain k j where k: "k < length dgs" and j: "j < prod_list dgs"
    and x: "x = grid_lins gs dgs ! k ! (unravel dgs j ! k)"
    by (auto simp: grid_axes_def)
  from unravel_less[OF j k] have "unravel dgs j ! k < length (grid_lins gs dgs ! k)"
    using grid_lins_props(3)[OF assms(1) k] by simp
  then have "x \<in> set (grid_lins gs dgs ! k)" using x by simp
  then show ?thesis using grid_lins_props(3)[OF assms(1) k] linspace_finite by metis
qed

lemma base_grid_wf_finite:
  assumes "length (grid_size m) = length (downsampled_grid_size m)" and "grid_size m \<noteq> []"
  shows "\<exists>g. DVAE_base_grid m bts = Inr g
           \<and> shape g = bts # length (grid_size m) # downsampled_grid_size m
           \<and> wf_tensor g \<and> all_finite g"
proof -
  let ?g = "\<lparr>shape = bts # length (grid_size m) # downsampled_grid_size m,
             elems = concat (replicate bts
                       (concat (grid_axes (grid_size m) (downsampled_grid_size m))))\<rparr>"
  have "wf_tensor ?g"
    using assms(1) by (simp add: wf_tensor_def length_concat_replicate grid_axes_length)
  moreover have "all_finite ?g"
    using grid_axes_finite[OF assms(1)] by (auto simp: all_finite_def list_all_iff)
  ultimately show ?thesis using base_grid_constructed[OF assms] by simp
qed

lemma base_grid_shape:
  "DVAE_base_grid m bts = Inr g \<Longrightarrow>
     shape g = bts # length (grid_size m) # downsampled_grid_size m"
  by (auto simp: DVAE_base_grid_def Let_def ebind_eq_Inr view_def repeat0_def
      split: if_splits list.splits)

lemma init_grid_sizes:
  assumes "DVAE_init nets atlas0 ld kw = Inr m"
  shows "length (grid_size m) = length (downsampled_grid_size m)" and "grid_size m \<noteq> []"
    and "number_of_time_points m \<noteq> 1"
  using assms by (auto simp: DVAE_init_eq split: list.splits if_splits)

lemma linspace_nth:
  "i < n \<Longrightarrow>
     linspace a b n ! i = Fin (if n = 1 then a else a + real i * (b - a) / real (n - 1))"
  by (auto simp: linspace_def)

lemma init_downsampled:
  assumes "DVAE_init nets atlas0 ld kw = Inr m"
  shows "downsampled_grid_size m = map (\<lambda>g. g div downsampling_grid m) (grid_size m)"
  using assms by (auto simp: DVAE_init_eq split: list.splits if_splits)

lemma base_grid_elements:
  assumes len: "length (grid_size m) = length (downsampled_grid_size m)"
    and ne: "grid_size m \<noteq> []"
    and g: "DVAE_base_grid m bts = Inr grid"
    and b: "b < bts" and k: "k < length (downsampled_grid_size m)"
    and p: "p < prod_list (downsampled_grid_size m)"
  shows "elems grid ! ((b * length (downsampled_grid_size m) + k)
                        * prod_list (downsampled_grid_size m) + p)
           = linspace 0 (real (grid_size m ! k) - 1) (downsampled_grid_size m ! k)
               ! (unravel (downsampled_grid_size m) p ! k)"
    and "unravel (downsampled_grid_size m) p ! k < downsampled_grid_size m ! k"
proof -
  let ?gs = "grid_size m" and ?dgs = "downsampled_grid_size m"
  let ?P = "prod_list ?dgs" and ?D = "length ?dgs"
  let ?S = "concat (grid_axes ?gs ?dgs)"
  have lenS: "length ?S = ?D * ?P" by (rule grid_axes_length)
  have el: "elems grid = concat (replicate bts ?S)"
    using base_grid_constructed[OF len ne, of bts] g by simp
  have kp: "k * ?P + p < ?D * ?P"
  proof -
    have "k * ?P + p < k * ?P + ?P" using p by simp
    also have "\<dots> = (k + 1) * ?P" by simp
    also have "\<dots> \<le> ?D * ?P" using k by (intro mult_le_mono1) simp
    finally show ?thesis .
  qed
  have idx: "(b * ?D + k) * ?P + p = b * (?D * ?P) + (k * ?P + p)"
    by (simp add: algebra_simps)
  have "concat (replicate bts ?S) ! (b * (?D * ?P) + (k * ?P + p))
          = replicate bts ?S ! b ! (k * ?P + p)"
    using b kp lenS by (intro nth_concat_uniform) auto
  also have "\<dots> = ?S ! (k * ?P + p)" using b by simp
  also have "\<dots> = grid_axes ?gs ?dgs ! k ! p"
    using k p by (intro nth_concat_uniform) (auto simp: grid_axes_def)
  also have "\<dots> = grid_lins ?gs ?dgs ! k ! (unravel ?dgs p ! k)"
    using k p by (simp add: grid_axes_def)
  also have "\<dots> = linspace 0 (real (?gs ! k) - 1) (?dgs ! k) ! (unravel ?dgs p ! k)"
    using grid_lins_props(3)[OF len k] by simp
  finally show "elems grid ! ((b * ?D + k) * ?P + p)
      = linspace 0 (real (?gs ! k) - 1) (?dgs ! k) ! (unravel ?dgs p ! k)"
    unfolding el idx .
  show "unravel ?dgs p ! k < ?dgs ! k" by (rule unravel_less[OF p k])
qed

lemma linspace_unit_step:
  assumes "i < n"
  shows "linspace 0 (real n - 1) n ! i = Fin (real i)"
proof (cases "n = 1")
  case True
  with assms show ?thesis by (simp add: linspace_nth)
next
  case False
  with assms have "real n - 1 \<noteq> 0" by auto
  with assms False show ?thesis by (simp add: linspace_nth of_nat_diff)
qed

lemma shape_const_atlas: "shape (const_atlas s) = s"
  by (simp add: const_atlas_def)

text \<open>
  Claim C9, as the code has it. For a constructed model the base grid exists, has the
  shape batch, axes, downsampled sizes, and its coordinate along axis \<open>k\<close> at the
  point with index \<open>i\<close> on that axis is \<open>i * (g - 1) / (d - 1)\<close>, for the full size
  \<open>g\<close> and the downsampled size \<open>d\<close> of the axis (and 0 when \<open>d\<close> is 1): the
  \<open>d\<close> evenly spaced values from 0 to \<open>g - 1\<close>. With downsampling factor 1 the
  coordinate is the integer \<open>i\<close>.
\<close>

theorem base_grid_coordinates:
  assumes "DVAE_init nets atlas0 ld kw = Inr m \<or> DRVAE_init nets atlas0 ld kw = Inr m"
  shows "\<exists>grid. DVAE_base_grid m bts = Inr grid \<and> DRVAE_base_grid m bts = Inr grid
           \<and> shape grid = bts # length (grid_size m) # downsampled_grid_size m
           \<and> (\<forall>b < bts. \<forall>k < length (grid_size m). \<forall>p < prod_list (downsampled_grid_size m).
                unravel (downsampled_grid_size m) p ! k < downsampled_grid_size m ! k
                \<and> elems grid ! ((b * length (grid_size m) + k)
                                  * prod_list (downsampled_grid_size m) + p)
                    = Fin (if downsampled_grid_size m ! k = 1 then 0
                           else real (unravel (downsampled_grid_size m) p ! k)
                                * (real (grid_size m ! k) - 1)
                                / (real (downsampled_grid_size m ! k) - 1))
                \<and> (downsampling_grid m = 1 \<longrightarrow>
                     elems grid ! ((b * length (grid_size m) + k)
                                    * prod_list (downsampled_grid_size m) + p)
                       = Fin (real (unravel (downsampled_grid_size m) p ! k))))"
proof -
  from assms have init: "DVAE_init nets atlas0 ld kw = Inr m" by (simp add: DRVAE_init_eq)
  note len = init_grid_sizes(1)[OF init] and ne = init_grid_sizes(2)[OF init]
  from base_grid_wf_finite[OF len ne, of bts]
  obtain g where g: "DVAE_base_grid m bts = Inr g"
    and sh: "shape g = bts # length (grid_size m) # downsampled_grid_size m"
    by blast
  from init_downsampled[OF init]
  have dgs: "downsampled_grid_size m = map (\<lambda>g. g div downsampling_grid m) (grid_size m)" .
  have "unravel (downsampled_grid_size m) p ! k < downsampled_grid_size m ! k
        \<and> elems g ! ((b * length (grid_size m) + k) * prod_list (downsampled_grid_size m) + p)
            = Fin (if downsampled_grid_size m ! k = 1 then 0
                   else real (unravel (downsampled_grid_size m) p ! k)
                        * (real (grid_size m ! k) - 1)
                        / (real (downsampled_grid_size m ! k) - 1))
        \<and> (downsampling_grid m = 1 \<longrightarrow>
             elems g ! ((b * length (grid_size m) + k) * prod_list (downsampled_grid_size m) + p)
               = Fin (real (unravel (downsampled_grid_size m) p ! k)))"
    if b: "b < bts" and k: "k < length (grid_size m)"
      and p: "p < prod_list (downsampled_grid_size m)" for b k p
  proof -
    from k len have k': "k < length (downsampled_grid_size m)" by simp
    note e = base_grid_elements[OF len ne g b k' p]
    let ?i = "unravel (downsampled_grid_size m) p ! k"
    from e(2) have pos: "0 < downsampled_grid_size m ! k" by simp
    have f: "linspace 0 (real (grid_size m ! k) - 1) (downsampled_grid_size m ! k) ! ?i
             = Fin (if downsampled_grid_size m ! k = 1 then 0
                    else real ?i * (real (grid_size m ! k) - 1)
                         / (real (downsampled_grid_size m ! k) - 1))"
      using e(2) pos by (simp add: linspace_nth of_nat_diff)
    have u: "linspace 0 (real (grid_size m ! k) - 1) (downsampled_grid_size m ! k) ! ?i
             = Fin (real ?i)" if "downsampling_grid m = 1"
    proof -
      from that dgs k have "downsampled_grid_size m ! k = grid_size m ! k" by simp
      with linspace_unit_step[OF e(2)] show ?thesis by simp
    qed
    from e f u show ?thesis by (simp add: len)
  qed
  with g sh show ?thesis unfolding DRVAE_base_grid_eq by blast
qed

theorem base_grid_coordinates_witness:
  "\<exists>m grid. DVAE_init id_nets (const_atlas [1, 2, 2]) 4 (config 0 5) = Inr m
       \<and> DVAE_base_grid m 1 = Inr grid \<and> DRVAE_base_grid m 1 = Inr grid
       \<and> shape grid = [1, 2, 2, 2]
       \<and> elems grid ! 3 = Fin 1"
proof -
  obtain m where m: "DVAE_init id_nets (const_atlas [1, 2, 2]) 4 (config 0 5) = Inr m"
    and sz: "grid_size m = [2, 2]" "downsampled_grid_size m = [2, 2]"
    and dsf: "downsampling_grid m = 1"
    using init_small_config[of "const_atlas [1, 2, 2]" 1 "[2, 2]" 0 5 id_nets 4]
    by (auto simp: shape_const_atlas)
  from base_grid_coordinates[OF disjI1[OF m], of 1] show ?thesis
  proof (elim exE conjE)
    fix grid
    assume g: "DVAE_base_grid m 1 = Inr grid" and g': "DRVAE_base_grid m 1 = Inr grid"
      and sh: "shape grid = 1 # length (grid_size m) # downsampled_grid_size m"
      and el: "\<forall>b < 1. \<forall>k < length (grid_size m). \<forall>p < prod_list (downsampled_grid_size m).
                unravel (downsampled_grid_size m) p ! k < downsampled_grid_size m ! k
                \<and> elems grid ! ((b * length (grid_size m) + k)
                                  * prod_list (downsampled_grid_size m) + p)
                    = Fin (if downsampled_grid_size m ! k = 1 then 0
                           else real (unravel (downsampled_grid_size m) p ! k)
                                * (real (grid_size m ! k) - 1)
                                / (real (downsampled_grid_size m ! k) - 1))
                \<and> (downsampling_grid m = 1 \<longrightarrow>
                     elems grid ! ((b * length (grid_size m) + k)
                                    * prod_list (downsampled_grid_size m) + p)
                       = Fin (real (unravel (downsampled_grid_size m) p ! k)))"
    have "(0::nat) < 1" "0 < length (grid_size m)" "3 < prod_list (downsampled_grid_size m)"
      by (simp_all add: sz)
    from el[rule_format, OF this] dsf have "elems grid ! 3 = Fin 1"
      by (simp add: sz)
    with m g g' sh sz show ?thesis by simp
  qed
qed

text \<open>
  Claim C9 as stated fails: for a 32 by 32 atlas with downsampling factor 4, the
  coordinate of the second point of the first axis is 31/7, which is not an integer.
\<close>

theorem downsampled_grid_not_integer:
  "map_sum id (elem_at 8) (base_grid_of (const_atlas [1, 32, 32]) 2 5 1) = Inr (Fin (31 / 7))
   \<and> \<not> fl_is_integer (Fin (31 / 7))"
proof -
  obtain m where m: "DVAE_init id_nets (const_atlas [1, 32, 32]) 4 (config 2 5) = Inr m"
    and sz: "grid_size m = [32, 32]" "downsampled_grid_size m = [8, 8]"
    using init_small_config[of "const_atlas [1, 32, 32]" 1 "[32, 32]" 2 5 id_nets 4]
    by (auto simp: shape_const_atlas)
  from base_grid_wf_finite[OF init_grid_sizes(1,2)[OF m], of 1]
  obtain g where g: "DVAE_base_grid m 1 = Inr g" by blast
  from base_grid_elements(1)[OF init_grid_sizes(1,2)[OF m] g, of 0 0 8]
  have "elems g ! 8 = Fin (31 / 7)"
    by (simp add: sz linspace_nth)
  with m g have "map_sum id (elem_at 8) (base_grid_of (const_atlas [1, 32, 32]) 2 5 1)
                   = Inr (Fin (31 / 7))"
    by (simp add: base_grid_of_def elem_at_def)
  moreover have "\<not> fl_is_integer (Fin (31 / 7))" by simp
  ultimately show ?thesis by simp
qed

section \<open>Integration of the velocity field\<close>

lemma tensor_eta: "\<lparr>shape = shape t, elems = elems t\<rparr> = (t :: 'a tensor)"
  by simp

lemma binop_add_zeros:
  assumes "wf_tensor g"
  shows "binop fl_add g (zeros (shape g)) = Inr g"
proof -
  have "map (\<lambda>k. fl_add (elems g ! k) (elems (zeros (shape g)) ! k)) [0..<prod_list (shape g)]
          = elems g"
    using assms by (intro nth_equalityI) (auto simp: wf_tensor_def zeros_def)
  moreover have "shape g = shape (zeros (shape g))" by (simp add: zeros_def)
  ultimately show ?thesis using binop_same_shape[of g "zeros (shape g)" fl_add] by simp
qed

lemma iadd_zeros:
  assumes "wf_tensor g"
  shows "iadd g (zeros (shape g)) = Inr g"
  using binop_add_zeros[OF assms] by (simp add: iadd_def zeros_def)

lemma tmap_zeros:
  assumes "f (Fin 0) = Fin 0"
  shows "tmap f (zeros s) = zeros s"
  using assms by (simp add: tmap_def zeros_def)

lemma all_finite_no_nan: "all_finite t \<Longrightarrow> \<not> has_nan t"
proof -
  have "fl_isfinite x \<Longrightarrow> \<not> fl_isnan x" for x by (cases x) auto
  then show "all_finite t \<Longrightarrow> \<not> has_nan t"
    by (auto simp: all_finite_def has_nan_def list_all_iff list_ex_iff)
qed

lemma steps_at_rest:
  assumes "wf_tensor g" and "all_finite g"
    and "\<forall>s x n. batched_vector_interpolation_adaptive ext (zeros s) x n = Inr (zeros s)"
  shows "DVAE_integration_steps n ext m g g = Inr g"
proof (induction n)
  case 0
  show ?case by simp
next
  case (Suc n)
  have "tmap (fl_mul (Fin (dt m))) (zeros (shape g)) = zeros (shape g)"
    by (rule tmap_zeros) simp
  then show ?case
    using assms Suc
    by (simp add: binop_sub_self iadd_zeros all_finite_no_nan)
qed

text \<open>
  Claim C1, as the code has it. For a constructed model with between 2 and 1023 time
  points, any batch size and an interpolator that returns the zero field for the zero
  field, the integration of the zero velocity field returns the base grid, in both
  classes. From 1024 time points on, the conversion \<open>float(2 ** ntp)\<close> raises instead.
\<close>

theorem zero_velocity_gives_base_grid:
  assumes "DVAE_init nets atlas0 ld kw = Inr m \<or> DRVAE_init nets atlas0 ld kw = Inr m"
    and "2 \<le> number_of_time_points m"
    and "\<forall>s x n. batched_vector_interpolation_adaptive ext (zeros s) x n = Inr (zeros s)"
  shows "(number_of_time_points m \<le> 1023 \<longrightarrow>
           (\<exists>grid. DVAE_base_grid m bts = Inr grid \<and> DRVAE_base_grid m bts = Inr grid
              \<and> DVAE_vector_field_integration ext m
                  (zeros (bts # length (grid_size m) # downsampled_grid_size m)) = Inr grid
              \<and> DRVAE_vector_field_integration ext m
                  (zeros (bts # length (grid_size m) # downsampled_grid_size m)) = Inr grid))
       \<and> (1024 \<le> number_of_time_points m \<longrightarrow>
            DVAE_vector_field_integration ext m
              (zeros (bts # length (grid_size m) # downsampled_grid_size m)) = Inl OverflowError
          \<and> DRVAE_vector_field_integration ext m
              (zeros (bts # length (grid_size m) # downsampled_grid_size m)) = Inl OverflowError)"
proof -
  from assms(1) have init: "DVAE_init nets atlas0 ld kw = Inr m" by (simp add: DRVAE_init_eq)
  from base_grid_wf_finite[OF init_grid_sizes(1,2)[OF init], of bts]
  obtain g where g: "DVAE_base_grid m bts = Inr g"
    and sh: "shape g = bts # length (grid_size m) # downsampled_grid_size m"
    and wf: "wf_tensor g" and fin: "all_finite g"
    by blast
  have s0: "size0 (zeros (shape g)) = Inr bts" by (simp add: size0_def zeros_def sh)
  have small: "DVAE_vector_field_integration ext m (zeros (shape g)) = Inr g"
    if "number_of_time_points m \<le> 1023"
  proof -
    from that have p: "py_float_pow2 (number_of_time_points m)
                         = Inr (2 powi number_of_time_points m)"
      by (intro py_float_pow2_small) simp
    have z: "tmap (\<lambda>e. fl_div e (Fin (2 powi number_of_time_points m))) (zeros (shape g))
               = zeros (shape g)"
      by (rule tmap_zeros) simp
    show ?thesis
      unfolding DVAE_vector_field_integration_def Let_def
      using g p z binop_add_zeros[OF wf] steps_at_rest[OF wf fin assms(3)] s0
      by simp
  qed
  have large: "DVAE_vector_field_integration ext m (zeros (shape g)) = Inl OverflowError"
    if "1024 \<le> number_of_time_points m"
    unfolding DVAE_vector_field_integration_def Let_def
    using g py_float_pow2_large[OF that] s0 by simp
  from small large g sh show ?thesis
    by (simp add: DRVAE_base_grid_eq DRVAE_vector_field_integration_eq)
qed

theorem zero_velocity_gives_base_grid_witness:
  "\<exists>m grid. DVAE_init id_nets (const_atlas [1, 2, 2]) 4 (config 0 5) = Inr m
       \<and> 2 \<le> number_of_time_points m \<and> number_of_time_points m \<le> 1023
       \<and> (\<forall>s x n. batched_vector_interpolation_adaptive id_ext (zeros s) x n = Inr (zeros s))
       \<and> DVAE_base_grid m 1 = Inr grid
       \<and> DVAE_vector_field_integration id_ext m (zeros [1, 2, 2, 2]) = Inr grid
       \<and> DRVAE_vector_field_integration id_ext m (zeros [1, 2, 2, 2]) = Inr grid"
proof -
  obtain m where m: "DVAE_init id_nets (const_atlas [1, 2, 2]) 4 (config 0 5) = Inr m"
    and ntp: "number_of_time_points m = 5"
    and sz: "grid_size m = [2, 2]" "downsampled_grid_size m = [2, 2]"
    using init_small_config[of "const_atlas [1, 2, 2]" 1 "[2, 2]" 0 5 id_nets 4]
    by (auto simp: const_atlas_def)
  have ext: "\<forall>s x n. batched_vector_interpolation_adaptive id_ext (zeros s) x n = Inr (zeros s)"
    by (simp add: id_ext_def)
  from zero_velocity_gives_base_grid[OF disjI1[OF m] _ ext, of 1] m ntp ext sz
  show ?thesis by (auto simp: eval_nat_numeral)
qed

text \<open>
  Claim C1 as stated fails: a model with 1024 time points is constructed, and the
  integration of the zero field of a batch of one raises OverflowError.
\<close>

theorem many_time_points_overflow:
  "integrate_zero_field (const_atlas [1, 2, 2]) 0 1024 1 = Inl OverflowError"
proof -
  obtain m where m: "DVAE_init id_nets (const_atlas [1, 2, 2]) 4 (config 0 1024) = Inr m"
    and ntp: "number_of_time_points m = 1024"
    using init_small_config[of "const_atlas [1, 2, 2]" 1 "[2, 2]" 0 1024 id_nets 4]
    by (auto simp: const_atlas_def)
  from base_grid_wf_finite[OF init_grid_sizes(1,2)[OF m], of 1]
  obtain g where g: "DVAE_base_grid m 1 = Inr g" by blast
  have "py_float_pow2 (number_of_time_points m) = Inl OverflowError"
    by (rule py_float_pow2_large) (simp add: ntp)
  with g have "DVAE_vector_field_integration id_ext m
                 (zeros (1 # length (grid_size m) # downsampled_grid_size m))
               = Inl OverflowError"
    by (simp add: DVAE_vector_field_integration_def Let_def size0_def zeros_def)
  with m show ?thesis by (simp add: integrate_zero_field_def)
qed

lemma fl_add_nan_right: "fl_isnan y \<Longrightarrow> fl_isnan (fl_add x y)"
  by (cases x; cases y) auto

lemma has_nan_nth: "k < length (elems t) \<Longrightarrow> fl_isnan (elems t ! k) \<Longrightarrow> has_nan t"
  by (auto simp: has_nan_def list_ex_iff)

lemma iadd_keeps_nan:
  assumes "iadd x y = Inr x'" and "k < prod_list (shape x)" and "fl_isnan (elems x ! k)"
  shows "has_nan x'"
proof -
  from iadd_elems(2)[OF assms(1,2)] assms(3) have "fl_isnan (elems x' ! k)" by simp
  moreover from iadd_elems(3)[OF assms(1)] assms(2) have "k < length (elems x')" by simp
  ultimately show ?thesis by (rule has_nan_nth[rotated])
qed

lemma steps_nan_raise:
  assumes "k < prod_list (shape x)" and "fl_isnan (elems x ! k)"
  shows "\<exists>e. DVAE_integration_steps (Suc n) ext m grid x = Inl e"
proof (cases "binop fl_sub x grid")
  case (Inl e)
  then show ?thesis by simp
next
  case (Inr d)
  show ?thesis
  proof (cases "batched_vector_interpolation_adaptive ext d x (downsampling_grid m)")
    case (Inl e)
    with Inr show ?thesis by simp
  next
    case w: (Inr w)
    show ?thesis
    proof (cases "iadd x (tmap (fl_mul (Fin (dt m))) w)")
      case (Inl e)
      with Inr w show ?thesis by simp
    next
      case x': (Inr x')
      from iadd_keeps_nan[OF x' assms] Inr w x' show ?thesis by simp
    qed
  qed
qed

lemma steps_nan_assert:
  assumes "k < prod_list (shape x)" and "fl_isnan (elems x ! k)" and "shape grid = shape x"
    and "\<forall>d y c. shape d = shape y \<longrightarrow>
           (\<exists>w. batched_vector_interpolation_adaptive ext d y c = Inr w \<and> shape w = shape y)"
  shows "DVAE_integration_steps (Suc n) ext m grid x
           = Inl (AssertionError ''NaN detected in grid during integration step'')"
proof -
  from assms(3) obtain d where d: "binop fl_sub x grid = Inr d" and sd: "shape d = shape x"
    by (simp add: binop_same_shape)
  from assms(4) sd obtain w
    where w: "batched_vector_interpolation_adaptive ext d x (downsampling_grid m) = Inr w"
      and sw: "shape w = shape x"
    by blast
  from sw obtain x' where x': "iadd x (tmap (fl_mul (Fin (dt m))) w) = Inr x'"
    by (simp add: iadd_def tmap_def binop_same_shape)
  from iadd_keeps_nan[OF x' assms(1,2)] d w x' show ?thesis by simp
qed

lemma first_position_nan:
  assumes "has_nan v" and "wf_tensor v" and "shape g = shape v"
    and "binop fl_add g (tmap (\<lambda>e. fl_div e (Fin c)) v) = Inr x"
  shows "shape x = shape v \<and> (\<exists>k < prod_list (shape x). fl_isnan (elems x ! k))"
proof -
  from assms(1) obtain k where k: "k < length (elems v)" and nan: "fl_isnan (elems v ! k)"
    by (auto simp: has_nan_def list_ex_iff in_set_conv_nth)
  from assms(2) k have kp: "k < prod_list (shape v)" by (simp add: wf_tensor_def)
  have "shape g = shape (tmap (\<lambda>e. fl_div e (Fin c)) v)" using assms(3) by (simp add: tmap_def)
  from binop_same_shape[OF this, of fl_add] assms(4)
  have x: "x = \<lparr>shape = shape g,
                elems = map (\<lambda>k. fl_add (elems g ! k) (elems (tmap (\<lambda>e. fl_div e (Fin c)) v) ! k))
                            [0..<prod_list (shape g)]\<rparr>"
    by simp
  have "fl_isnan (elems x ! k)"
    using kp k nan assms(3) by (simp add: x tmap_def fl_add_nan_right)
  with kp assms(3) show ?thesis by (auto simp: x)
qed

text \<open>
  Claim C7. A velocity field over the downsampled grid that contains a NaN never comes
  back from \<open>vector_field_integration\<close> when there is at least one time point: the call
  raises, whatever the external interpolator does. For a constructed model with at most
  1023 time points and an interpolator that returns a field of the shape of its input,
  the error is the assertion of the integration loop. In \<open>decode_s\<close> the assertion
  before the integration raises as soon as the velocity field holds a NaN.
\<close>

theorem nan_velocity_aborts:
  assumes "has_nan v" and "wf_tensor v"
    and "shape v = bts # length (grid_size m) # downsampled_grid_size m"
    and "1 \<le> number_of_time_points m"
  shows "(\<exists>e. DVAE_vector_field_integration ext m v = Inl e)
       \<and> (\<exists>e. DRVAE_vector_field_integration ext m v = Inl e)
       \<and> ((DVAE_init nets atlas0 ld kw = Inr m \<or> DRVAE_init nets atlas0 ld kw = Inr m)
            \<and> number_of_time_points m \<le> 1023
            \<and> (\<forall>d y c. shape d = shape y \<longrightarrow>
                  (\<exists>w. batched_vector_interpolation_adaptive ext d y c = Inr w
                       \<and> shape w = shape y))
          \<longrightarrow> DVAE_vector_field_integration ext m v
                = Inl (AssertionError ''NaN detected in grid during integration step'')
            \<and> DRVAE_vector_field_integration ext m v
                = Inl (AssertionError ''NaN detected in grid during integration step''))
       \<and> (DVAE_velocity_field ext m z_psi z = Inr v
          \<longrightarrow> DVAE_decode_s ext m z_psi z = Inl (AssertionError ''NaN detected v''))
       \<and> (DRVAE_velocity_field ext m z_psi z = Inr v
          \<longrightarrow> DRVAE_decode_s ext m z_psi z = Inl (AssertionError ''NaN detected v''))"
proof -
  from assms(4) obtain n where n: "nat (number_of_time_points m) = Suc n"
    by (cases "nat (number_of_time_points m)") auto
  have s0: "size0 v = Inr bts" using assms(3) by (simp add: size0_def)
  have raise: "\<exists>e. DVAE_vector_field_integration ext m v = Inl e"
  proof (cases "DVAE_base_grid m bts")
    case (Inl e)
    then show ?thesis by (simp add: DVAE_vector_field_integration_def s0)
  next
    case (Inr g)
    from base_grid_shape[OF Inr] assms(3) have sg: "shape g = shape v" by simp
    show ?thesis
    proof (cases "py_float_pow2 (number_of_time_points m)")
      case (Inl e)
      with Inr show ?thesis by (simp add: DVAE_vector_field_integration_def s0)
    next
      case c: (Inr c)
      show ?thesis
      proof (cases "binop fl_add g (tmap (\<lambda>e. fl_div e (Fin c)) v)")
        case (Inl e)
        with Inr c show ?thesis by (simp add: DVAE_vector_field_integration_def s0)
      next
        case x: (Inr x)
        from first_position_nan[OF assms(1,2) sg x] obtain k
          where "k < prod_list (shape x)" and "fl_isnan (elems x ! k)" by blast
        from steps_nan_raise[OF this, of n ext m g] Inr c x n show ?thesis
          by (simp add: DVAE_vector_field_integration_def s0)
      qed
    qed
  qed
  have assert: "DVAE_vector_field_integration ext m v
                  = Inl (AssertionError ''NaN detected in grid during integration step'')"
    if init: "DVAE_init nets atlas0 ld kw = Inr m"
      and ntp: "number_of_time_points m \<le> 1023"
      and ext: "\<forall>d y c. shape d = shape y \<longrightarrow>
                  (\<exists>w. batched_vector_interpolation_adaptive ext d y c = Inr w
                       \<and> shape w = shape y)"
  proof -
    from base_grid_wf_finite[OF init_grid_sizes(1,2)[OF init], of bts] assms(3)
    obtain g where g: "DVAE_base_grid m bts = Inr g" and sg: "shape g = shape v" by auto
    from ntp have c: "py_float_pow2 (number_of_time_points m)
                        = Inr (2 powi number_of_time_points m)"
      by (intro py_float_pow2_small) simp
    from sg obtain x
      where x: "binop fl_add g (tmap (\<lambda>e. fl_div e (Fin (2 powi number_of_time_points m))) v)
                  = Inr x"
      by (simp add: binop_same_shape tmap_def)
    from first_position_nan[OF assms(1,2) sg x] obtain k
      where sx: "shape x = shape v" and "k < prod_list (shape x)" and "fl_isnan (elems x ! k)"
      by blast
    from steps_nan_assert[OF this(2,3) _ ext, of g n m] sg sx g c x n show ?thesis
      by (simp add: DVAE_vector_field_integration_def s0)
  qed
  have dec: "DVAE_decode_s ext m z_psi z = Inl (AssertionError ''NaN detected v'')"
    if "DVAE_velocity_field ext m z_psi z = Inr v"
    using that assms(1) by (simp add: DVAE_decode_s_def)
  from raise assert dec show ?thesis
    by (simp add: DRVAE_vector_field_integration_eq DRVAE_init_eq DRVAE_velocity_field_eq
        DRVAE_decode_s_eq)
qed

theorem nan_velocity_aborts_witness:
  "\<exists>m. DVAE_init nan_nets (const_atlas [1, 2, 2]) 4 (config 0 5) = Inr m
       \<and> has_nan nan_field \<and> wf_tensor nan_field
       \<and> shape nan_field = 1 # length (grid_size m) # downsampled_grid_size m
       \<and> 1 \<le> number_of_time_points m \<and> number_of_time_points m \<le> 1023
       \<and> DVAE_velocity_field id_ext m (latent [0]) (latent [0, 0, 0]) = Inr nan_field
       \<and> DVAE_decode_s id_ext m (latent [0]) (latent [0, 0, 0])
           = Inl (AssertionError ''NaN detected v'')
       \<and> DVAE_vector_field_integration id_ext m nan_field
           = Inl (AssertionError ''NaN detected in grid during integration step'')"
proof -
  obtain m where m: "DVAE_init nan_nets (const_atlas [1, 2, 2]) 4 (config 0 5) = Inr m"
    and ntp: "number_of_time_points m = 5"
    and sz: "grid_size m = [2, 2]" "downsampled_grid_size m = [2, 2]"
    and mf: "decoder_s m = (\<lambda>z. Inr nan_field)" "\<not> isometry_constraint m"
    using init_small_config[of "const_atlas [1, 2, 2]" 1 "[2, 2]" 0 5 nan_nets 4]
    by (auto simp: const_atlas_def nan_nets_def)
  have nan: "has_nan nan_field" and wf: "wf_tensor nan_field"
    and sh: "shape nan_field = 1 # length (grid_size m) # downsampled_grid_size m"
    by (simp_all add: nan_field_def has_nan_def wf_tensor_def sz)
  have ext: "\<forall>d y c. shape d = shape y \<longrightarrow>
               (\<exists>w. batched_vector_interpolation_adaptive id_ext d y c = Inr w
                    \<and> shape w = shape y)"
    by (simp add: id_ext_def)
  have vel: "DVAE_velocity_field id_ext m (latent [0]) (latent [0, 0, 0]) = Inr nan_field"
    by (simp add: DVAE_velocity_field_def mf latent_def size0_def cat_last_def view_rows_def
        sum_dims_def tmap_def id_ext_def Let_def)
  from nan_velocity_aborts[OF nan wf sh, of id_ext nan_nets "const_atlas [1, 2, 2]" 4
      "config 0 5" "latent [0]" "latent [0, 0, 0]"]
    m nan wf sh ntp ext vel
  show ?thesis by (auto simp: DRVAE_init_eq)
qed

section \<open>Isometry normalization\<close>

lemma broadcast_shapes_scalar: "broadcast_shapes s [] = Some s"
  by (cases "rev s") (auto simp: broadcast_shapes_def)

lemma bget_scalar: "bget \<lparr>shape = [], elems = [c]\<rparr> s k = c"
  by (simp add: bget_def bidx_def)

lemma binop_scalar_right:
  "binop f a \<lparr>shape = [], elems = [c]\<rparr>
     = Inr \<lparr>shape = shape a,
            elems = map (\<lambda>k. f (elems a ! k) c) [0..<prod_list (shape a)]\<rparr>"
  by (simp add: binop_def broadcast_shapes_scalar bget_scalar bget_same_shape)

lemma normalizer_elems:
  assumes "shape l = [b]" and "shape e = [b]" and "wf_tensor l" and "wf_tensor e"
  shows "DVAE_normalizer tolr l e
           = Inr \<lparr>shape = [b],
                  elems = map (\<lambda>k. if fl_gt (elems l ! k) (Fin tolr)
                                     then fl_sqrt (fl_div (elems l ! k) (elems e ! k))
                                     else Fin 0) [0..<b]\<rparr>"
proof -
  from assms have len: "length (elems l) = b" "length (elems e) = b"
    by (simp_all add: wf_tensor_def)
  have q: "binop fl_div l e
             = Inr \<lparr>shape = [b], elems = map (\<lambda>k. fl_div (elems l ! k) (elems e ! k)) [0..<b]\<rparr>"
    using assms(1,2) by (simp add: binop_same_shape)
  let ?q = "\<lparr>shape = [b], elems = map (\<lambda>k. fl_div (elems l ! k) (elems e ! k)) [0..<b]\<rparr>"
  let ?c = "tmap (\<lambda>x. fl_gt x (Fin tolr)) l"
  have p: "binop Pair (tmap fl_sqrt ?q) \<lparr>shape = [], elems = [Fin 0]\<rparr>
             = Inr \<lparr>shape = [b],
                    elems = map (\<lambda>k. (fl_sqrt (fl_div (elems l ! k) (elems e ! k)), Fin 0)) [0..<b]\<rparr>"
    by (simp add: binop_scalar_right tmap_def)
  let ?p = "\<lparr>shape = [b],
              elems = map (\<lambda>k. (fl_sqrt (fl_div (elems l ! k) (elems e ! k)), Fin 0)) [0..<b]\<rparr>"
  have "shape ?c = shape ?p" using assms(1) by (simp add: tmap_def)
  from binop_same_shape[OF this, of pick]
  have "binop pick ?c ?p
          = Inr \<lparr>shape = [b],
                 elems = map (\<lambda>k. if fl_gt (elems l ! k) (Fin tolr)
                                    then fl_sqrt (fl_div (elems l ! k) (elems e ! k))
                                    else Fin 0) [0..<b]\<rparr>"
    using assms(1) len by (simp add: tmap_def)
  with q p show ?thesis by (simp add: DVAE_normalizer_def where3_def)
qed



lemma field_energy_rows:
  assumes "shape v = b # ds" and "shape w = b # ds" and "length ds = ndim + 1"
  shows "DVAE_field_energy ndim v w
           = Inr \<lparr>shape = [b],
                  elems = map (\<lambda>k. fl_sum (map (\<lambda>j. fl_mul (elems v ! (k * prod_list ds + j))
                                                          (elems w ! (k * prod_list ds + j)))
                                               [0..<prod_list ds]))
                              [0..<b]\<rparr>"
proof -
  let ?M = "prod_list ds"
  let ?P = "\<lparr>shape = b # ds,
              elems = map (\<lambda>k. fl_mul (elems v ! k) (elems w ! k)) [0..<b * ?M]\<rparr>"
  have prod: "binop fl_mul v w = Inr ?P"
    using assms(1,2) by (simp add: binop_same_shape)
  have row: "map (\<lambda>j. map (\<lambda>k. fl_mul (elems v ! k) (elems w ! k)) [0..<b * ?M] ! (k * ?M + j))
                 [0..<?M]
               = map (\<lambda>j. fl_mul (elems v ! (k * ?M + j)) (elems w ! (k * ?M + j))) [0..<?M]"
    if "k < b" for k
  proof (rule map_cong[OF refl])
    fix j assume "j \<in> set [0..<?M]"
    then have j: "j < ?M" by simp
    have "k * ?M + j < k * ?M + ?M" using j by simp
    also have "\<dots> = (k + 1) * ?M" by simp
    also have "\<dots> \<le> b * ?M" using that by (intro mult_le_mono1) simp
    finally show "map (\<lambda>k. fl_mul (elems v ! k) (elems w ! k)) [0..<b * ?M] ! (k * ?M + j)
                    = fl_mul (elems v ! (k * ?M + j)) (elems w ! (k * ?M + j))"
      by simp
  qed
  have "sum_dims (ndim + 1) ?P
          = Inr \<lparr>shape = [b],
                 elems = map (\<lambda>k. fl_sum (map (\<lambda>j. fl_mul (elems v ! (k * ?M + j))
                                                         (elems w ! (k * ?M + j)))
                                              [0..<?M]))
                             [0..<b]\<rparr>"
    using assms(3) by (simp add: sum_dims_def Let_def row cong: map_cong)
  then show ?thesis using prod by (simp add: DVAE_field_energy_def)
qed

lemma bshape_rev_ones:
  "length ys = n \<Longrightarrow> bshape_rev (replicate n 1 @ [b]) (ys @ [b]) = Some (ys @ [b])"
proof (induction n arbitrary: ys)
  case 0
  then show ?case by simp
next
  case (Suc n)
  then obtain y ys' where ys: "ys = y # ys'" and len: "length ys' = n"
    by (cases ys) auto
  from Suc.IH[OF len] show ?case by (simp add: ys)
qed

lemma broadcast_shapes_ones:
  assumes "length ds = n"
  shows "broadcast_shapes (b # replicate n 1) (b # ds) = Some (b # ds)"
proof -
  have "rev (b # replicate n 1) = replicate n 1 @ [b]" by simp
  moreover have "rev (b # ds) = rev ds @ [b]" by simp
  moreover have "bshape_rev (replicate n 1 @ [b]) (rev ds @ [b]) = Some (rev ds @ [b])"
    using assms by (intro bshape_rev_ones) simp
  ultimately show ?thesis unfolding broadcast_shapes_def by simp
qed

lemma ravel_ones: "ravel (replicate n 1) (replicate n 0) = 0"
  by (induction n) auto

lemma map2_ones:
  "length xs = n \<Longrightarrow> map2 (\<lambda>d i. if d = 1 then 0 else i) (replicate n (1::nat)) xs
                       = replicate n (0::nat)"
  by (induction n arbitrary: xs) (auto simp: length_Suc_conv)

lemma bidx_batch:
  assumes "length rest = n"
  shows "bidx (b # replicate n 1) (i # rest) = (if b = 1 then 0 else i) # replicate n 0"
  unfolding bidx_def using assms map2_ones[OF assms] by simp

lemma bget_batch:
  assumes "length ds = n" and "k < b * prod_list ds"
  shows "bget \<lparr>shape = b # replicate n 1, elems = es\<rparr> (b # ds) k = es ! (k div prod_list ds)"
proof -
  have small: "k div prod_list ds < b"
    using assms(2) by (intro less_mult_imp_div_less) simp
  have u: "unravel (b # ds) k = (k div prod_list ds) # unravel ds (k mod prod_list ds)"
    by simp
  have "bidx (b # replicate n 1) (unravel (b # ds) k)
          = (if b = 1 then 0 else k div prod_list ds) # replicate n 0"
    unfolding u using assms(1) by (intro bidx_batch) simp
  also have "\<dots> = (k div prod_list ds) # replicate n 0" using small by auto
  finally have "bidx (b # replicate n 1) (unravel (b # ds) k)
                  = (k div prod_list ds) # replicate n 0" .
  moreover have "ravel (b # replicate n 1) ((k div prod_list ds) # replicate n 0)
                   = k div prod_list ds"
    using ravel_ones[of n] by simp
  ultimately show ?thesis unfolding bget_def by simp
qed

lemma expand_batch:
  assumes "length ds = n"
  shows "expand \<lparr>shape = b # replicate n 1, elems = es\<rparr> (b # ds)
           = Inr \<lparr>shape = b # ds,
                  elems = map (\<lambda>k. es ! (k div prod_list ds)) [0..<b * prod_list ds]\<rparr>"
proof -
  have "map (bget \<lparr>shape = b # replicate n 1, elems = es\<rparr> (b # ds)) [0..<b * prod_list ds]
          = map (\<lambda>k. es ! (k div prod_list ds)) [0..<b * prod_list ds]"
  proof (rule map_cong[OF refl])
    fix k assume "k \<in> set [0..<b * prod_list ds]"
    then have "k < b * prod_list ds" by simp
    then show "bget \<lparr>shape = b # replicate n 1, elems = es\<rparr> (b # ds) k
                 = es ! (k div prod_list ds)"
      by (rule bget_batch[OF assms])
  qed
  moreover have "prod_list (b # ds) = b * prod_list ds" by simp
  ultimately show ?thesis
    unfolding expand_def using broadcast_shapes_ones[OF assms, of b] by (simp del: replicate.simps)
qed

lemma normalize_elems:
  assumes "shape v = b # ds" and "shape w = b # ds" and "length ds = ndim + 1"
    and "shape l = [b]" and "wf_tensor l"
  shows "\<exists>e n. DVAE_field_energy ndim v w = Inr e \<and> DVAE_normalizer tolr l e = Inr n
           \<and> DVAE_normalize ndim tolr l w v
               = Inr \<lparr>shape = b # ds,
                      elems = map (\<lambda>k. fl_mul (elems v ! k) (elems n ! (k div prod_list ds)))
                                  [0..<b * prod_list ds]\<rparr>
           \<and> (\<forall>i < b. elems n ! i
                  = (if fl_gt (elems l ! i) (Fin tolr)
                     then fl_sqrt (fl_div (elems l ! i) (elems e ! i)) else Fin 0))
           \<and> (\<forall>i < b. elems e ! i
                  = fl_sum (map (\<lambda>j. fl_mul (elems v ! (i * prod_list ds + j))
                                             (elems w ! (i * prod_list ds + j)))
                                [0..<prod_list ds]))"
proof -
  let ?M = "prod_list ds"
  define E where "E = (\<lambda>k. fl_sum (map (\<lambda>j. fl_mul (elems v ! (k * ?M + j))
                                                  (elems w ! (k * ?M + j))) [0..<?M]))"
  define e where "e = \<lparr>shape = [b], elems = map E [0..<b]\<rparr>"
  define N where "N = (\<lambda>k. if fl_gt (elems l ! k) (Fin tolr)
                           then fl_sqrt (fl_div (elems l ! k) (elems e ! k)) else Fin 0)"
  define n where "n = \<lparr>shape = [b], elems = map N [0..<b]\<rparr>"
  define nv where "nv = \<lparr>shape = b # replicate (ndim + 1) 1, elems = elems n\<rparr>"
  define ne where "ne = \<lparr>shape = b # ds,
                          elems = map (\<lambda>k. elems n ! (k div ?M)) [0..<b * ?M]\<rparr>"
  have e: "DVAE_field_energy ndim v w = Inr e"
    using field_energy_rows[OF assms(1,2,3)] by (simp add: E_def e_def)
  have she: "shape e = [b]" and wfe: "wf_tensor e"
    by (simp_all add: e_def wf_tensor_def)
  have n: "DVAE_normalizer tolr l e = Inr n"
    using normalizer_elems[OF assms(4) she assms(5) wfe, of tolr] by (simp add: N_def n_def)
  have s: "size0 l = Inr b" using assms(4) by (simp add: size0_def)
  have "prod_list (b # replicate (ndim + 1) 1) = prod_list (shape n)"
    by (simp add: n_def)
  then have nv: "view n (b # replicate (ndim + 1) 1) = Inr nv"
    unfolding view_def nv_def by (simp only: refl if_True)
  have ne: "expand nv (shape v) = Inr ne"
    unfolding assms(1) nv_def ne_def by (rule expand_batch[OF assms(3)])
  have "shape v = shape ne" using assms(1) by (simp add: ne_def)
  from binop_same_shape[OF this, of fl_mul]
  have "binop fl_mul v ne
          = Inr \<lparr>shape = b # ds,
                 elems = map (\<lambda>k. fl_mul (elems v ! k) (elems ne ! k)) [0..<b * ?M]\<rparr>"
    using assms(1) by simp
  moreover have "map (\<lambda>k. fl_mul (elems v ! k) (elems ne ! k)) [0..<b * ?M]
                   = map (\<lambda>k. fl_mul (elems v ! k) (elems n ! (k div ?M))) [0..<b * ?M]"
    by (rule map_cong[OF refl]) (simp add: ne_def)
  ultimately have r: "binop fl_mul v ne
          = Inr \<lparr>shape = b # ds,
                 elems = map (\<lambda>k. fl_mul (elems v ! k) (elems n ! (k div ?M))) [0..<b * ?M]\<rparr>"
    by simp
  have norm: "DVAE_normalize ndim tolr l w v
          = Inr \<lparr>shape = b # ds,
                 elems = map (\<lambda>k. fl_mul (elems v ! k) (elems n ! (k div ?M))) [0..<b * ?M]\<rparr>"
    unfolding DVAE_normalize_def e ebind_Inr n s nv ne r ..
  have "\<forall>i < b. elems n ! i = N i" by (simp add: n_def)
  moreover have "\<forall>i < b. elems e ! i = E i" by (simp add: e_def)
  ultimately show ?thesis using e n norm unfolding N_def E_def by blast
qed

lemma row_index:
  assumes "i < b" and "j < (m::nat)"
  shows "i * m + j < b * m" and "(i * m + j) div m = i"
proof -
  have "i * m + j < i * m + m" using assms(2) by simp
  also have "\<dots> = (i + 1) * m" by simp
  also have "\<dots> \<le> b * m" using assms(1) by (intro mult_le_mono1) simp
  finally show "i * m + j < b * m" .
  show "(i * m + j) div m = i" using assms(2) by simp
qed




section \<open>Isometry normalization inside \<open>decode_s\<close>\<close>

lemma latent_norm_shape:
  assumes "ebind (view_rows z) (\<lambda>zr. sum_dims 1 (tmap f zr)) = Inr l" and "shape z = b # zs"
  shows "shape l = [b]" and "wf_tensor l" and "size0 z = Inr b"
  using assms
  by (auto simp: ebind_eq_Inr view_rows_def sum_dims_def tmap_def Let_def wf_tensor_def size0_def
      split: if_splits)

lemma velocity_field_unfold:
  assumes "isometry_constraint m" and "shape z = b # zs"
    and "cat_last z_psi z = Inr zst"
    and "ebind (view_rows z) (\<lambda>zr. sum_dims 1 (tmap (\<lambda>x. fl_mul x x) zr)) = Inr l"
    and "decoder_s m zst = Inr v_star"
    and "batched_vector_smoothing ext v_star (deformation_kernel_width m) False = Inr v"
  shows "DVAE_velocity_field ext m z_psi z
           = DVAE_normalize (length (grid_size m)) (tol m) l v_star v"
proof -
  from assms(4) obtain zr where zr: "view_rows z = Inr zr"
    and l: "sum_dims 1 (tmap (\<lambda>x. fl_mul x x) zr) = Inr l"
    by (auto simp: ebind_eq_Inr)
  from latent_norm_shape(3)[OF assms(4,2)] have s: "size0 z = Inr b" .
  show ?thesis
    unfolding DVAE_velocity_field_def Let_def s ebind_Inr assms(3) zr l assms(5) assms(6)
    using assms(1) by simp
qed

lemma fl_mul_nan_right: "fl_mul x NaN = NaN"
  by (cases x) auto



lemma init_iso_config:
  "\<exists>m. DVAE_init nets (const_atlas [1, 1, 1]) 4 iso_config = Inr m
       \<and> grid_size m = [1, 1] \<and> isometry_constraint m \<and> tol m = 1 / 100000
       \<and> decoder_s m = net_decoder_s nets \<and> deformation_kernel_width m = 1"
  by (simp add: DVAE_init_eq iso_config_def config_def shape_const_atlas)

lemma latent_norm_eval:
  "ebind (view_rows (latent [a, b, c])) (\<lambda>zr. sum_dims 1 (tmap (\<lambda>x. fl_mul x x) zr))
     = Inr (vec [a * a + b * b + c * c])"
  by (simp add: latent_def view_rows_def sum_dims_def tmap_def Let_def fl_sum_def vec_def
      numeral_3_eq_3)

lemma cat_last_eval:
  "cat_last (latent [p]) (latent [a, b, c])
     = Inr \<lparr>shape = [1, 4], elems = [Fin p, Fin a, Fin b, Fin c]\<rparr>"
  by (simp add: cat_last_def latent_def Let_def)

lemma pair_field_energy:
  "DVAE_field_energy 2 \<lparr>shape = [1, 2, 1, 1], elems = [Fin a, Fin b]\<rparr>
       \<lparr>shape = [1, 2, 1, 1], elems = [Fin c, Fin d]\<rparr>
     = Inr (vec [a * c + b * d])"
proof -
  have "shape \<lparr>shape = [1, 2, 1, 1], elems = [Fin a, Fin b]\<rparr> = 1 # [2, 1, 1]"
    "shape \<lparr>shape = [1, 2, 1, 1], elems = [Fin c, Fin d]\<rparr> = 1 # [2, 1, 1]"
    "length [2::nat, 1, 1] = 2 + 1"
    by simp_all
  from field_energy_rows[OF this] show ?thesis
    by (simp add: vec_def fl_sum_def numeral_2_eq_2)
qed


lemma zero_pair: "zeros [1, 2, 1, 1] = \<lparr>shape = [1, 2, 1, 1], elems = [Fin 0, Fin 0]\<rparr>"
  by (simp add: zeros_def numeral_2_eq_2)

text \<open>
  Claim C8. Let the isometry constraint be on, and let \<open>decode_s\<close> have decoded the
  momentum \<open>v_star\<close> from the latent codes, smoothed it into the velocity \<open>v\<close> and
  computed the field energy \<open>e\<close> of the two. If a batch element has a latent norm that is
  positive and above the tolerance and a field energy that is zero or negative, then
  nothing guards the division: the normalizer is computed without an error, its element
  is the square root of the quotient, plus infinity for a zero energy and NaN for a
  negative one, and the velocity field that \<open>decode_s\<close> goes on with is the smoothed one
  with every element of that batch element multiplied by this factor. No error is
  raised at the division; when an element of the product is NaN, as it always is for a
  negative energy, \<open>decode_s\<close> stops later at the assertion on the velocity field.
\<close>

theorem unguarded_normalizer_in_decode:
  assumes "isometry_constraint m" and "shape z = b # zs"
    and "cat_last z_psi z = Inr zst"
    and "ebind (view_rows z) (\<lambda>zr. sum_dims 1 (tmap (\<lambda>x. fl_mul x x) zr)) = Inr l"
    and "decoder_s m zst = Inr v_star"
    and "batched_vector_smoothing ext v_star (deformation_kernel_width m) False = Inr v"
    and "shape v = b # ds" and "shape v_star = b # ds"
    and "length ds = length (grid_size m) + 1"
    and "DVAE_field_energy (length (grid_size m)) v v_star = Inr e"
    and "i < b" and "elems l ! i = Fin lsq" and "elems e ! i = Fin esum"
    and "tol m < lsq" and "0 < lsq" and "esum \<le> 0"
  shows "\<exists>vn n. DVAE_normalizer (tol m) l e = Inr n
           \<and> elems n ! i = fl_sqrt (fl_div (Fin lsq) (Fin esum))
           \<and> elems n ! i = (if esum = 0 then PInf else NaN)
           \<and> \<not> fl_isfinite (elems n ! i)
           \<and> DVAE_velocity_field ext m z_psi z = Inr vn
           \<and> DRVAE_velocity_field ext m z_psi z = Inr vn
           \<and> shape vn = shape v
           \<and> (\<forall>j < prod_list ds.
                 elems vn ! (i * prod_list ds + j)
                   = fl_mul (elems v ! (i * prod_list ds + j)) (elems n ! i))
           \<and> (\<forall>j < prod_list ds. fl_isnan (elems vn ! (i * prod_list ds + j)) \<longrightarrow>
                 DVAE_decode_s ext m z_psi z = Inl (AssertionError ''NaN detected v'')
               \<and> DRVAE_decode_s ext m z_psi z = Inl (AssertionError ''NaN detected v''))
           \<and> (esum < 0 \<and> 0 < prod_list ds \<longrightarrow>
                 DVAE_decode_s ext m z_psi z = Inl (AssertionError ''NaN detected v'')
               \<and> DRVAE_decode_s ext m z_psi z = Inl (AssertionError ''NaN detected v''))"
proof -
  let ?M = "prod_list ds"
  note ls = latent_norm_shape(1,2)[OF assms(4,2)]
  from normalize_elems[OF assms(7,8,9) ls, of "tol m"] assms(10)
  obtain n where n: "DVAE_normalizer (tol m) l e = Inr n"
    and norm: "DVAE_normalize (length (grid_size m)) (tol m) l v_star v
                 = Inr \<lparr>shape = b # ds,
                        elems = map (\<lambda>k. fl_mul (elems v ! k) (elems n ! (k div ?M)))
                                    [0..<b * ?M]\<rparr>"
    and nel: "\<forall>i < b. elems n ! i
                = (if fl_gt (elems l ! i) (Fin (tol m))
                   then fl_sqrt (fl_div (elems l ! i) (elems e ! i)) else Fin 0)"
    by auto
  define vn where "vn = \<lparr>shape = b # ds,
                          elems = map (\<lambda>k. fl_mul (elems v ! k) (elems n ! (k div ?M)))
                                      [0..<b * ?M]\<rparr>"
  have vel: "DVAE_velocity_field ext m z_psi z = Inr vn"
    unfolding velocity_field_unfold[OF assms(1,2,3,4,5,6)] norm vn_def ..
  have ni: "elems n ! i = fl_sqrt (fl_div (Fin lsq) (Fin esum))"
    using nel assms(11,12,13,14) by simp
  have val: "fl_sqrt (fl_div (Fin lsq) (Fin esum)) = (if esum = 0 then PInf else NaN)"
    using assms(15,16) by (auto simp: fl_inf_def divide_less_0_iff)
  have row: "elems vn ! (i * ?M + j) = fl_mul (elems v ! (i * ?M + j)) (elems n ! i)"
    if "j < ?M" for j
    using row_index[OF assms(11) that] by (simp add: vn_def)
  have decg: "DVAE_decode_s ext m z_psi z = Inl (AssertionError ''NaN detected v'')"
    if lt: "j < ?M" and nan: "fl_isnan (elems vn ! (i * ?M + j))" for j
  proof -
    have "i * ?M + j < length (elems vn)"
      using row_index(1)[OF assms(11) lt] by (simp add: vn_def)
    then have "has_nan vn" using nan by (rule has_nan_nth)
    with vel show ?thesis by (simp add: DVAE_decode_s_def)
  qed
  have dec: "DVAE_decode_s ext m z_psi z = Inl (AssertionError ''NaN detected v'')"
    if neg: "esum < 0" and pos: "0 < ?M"
  proof -
    from row[OF pos] ni val neg have "fl_isnan (elems vn ! (i * ?M + 0))"
      by (simp add: fl_mul_nan_right)
    with pos show ?thesis by (rule decg)
  qed
  have "shape vn = shape v" using assms(7) by (simp add: vn_def)
  moreover have "\<not> fl_isfinite (elems n ! i)" using ni val by simp
  ultimately show ?thesis
    using n ni val vel row dec decg
    unfolding DRVAE_velocity_field_eq DRVAE_decode_s_eq by (intro exI[of _ vn] exI[of _ n]) simp
qed

theorem unguarded_normalizer_in_decode_witness:
  "\<exists>m vn. DVAE_init (field_nets (zeros [1, 2, 1, 1])) (const_atlas [1, 1, 1]) 4 iso_config = Inr m
       \<and> isometry_constraint m \<and> tol m < 1
       \<and> ebind (view_rows (latent [1, 0, 0])) (\<lambda>zr. sum_dims 1 (tmap (\<lambda>x. fl_mul x x) zr))
           = Inr (vec [1])
       \<and> DVAE_field_energy (length (grid_size m)) (zeros [1, 2, 1, 1]) (zeros [1, 2, 1, 1])
           = Inr (vec [0])
       \<and> DVAE_velocity_field id_ext m (latent [0]) (latent [1, 0, 0]) = Inr vn
       \<and> elems vn ! 0 = NaN
       \<and> DVAE_decode_s id_ext m (latent [0]) (latent [1, 0, 0])
           = Inl (AssertionError ''NaN detected v'')"
proof -
  let ?f = "zeros [1, 2, 1, 1]"
  from init_iso_config[of "field_nets ?f"] obtain m
    where m: "DVAE_init (field_nets ?f) (const_atlas [1, 1, 1]) 4 iso_config = Inr m"
      and gs: "grid_size m = [1, 1]" and iso: "isometry_constraint m"
      and tl: "tol m = 1 / 100000" and dm: "decoder_s m = (\<lambda>z. Inr ?f)"
    by (auto simp: field_nets_def)
  have len: "length (grid_size m) = 2" using gs by simp
  have sz: "shape (latent [1, 0, 0]) = 1 # [3]" by (simp add: latent_def)
  have lat: "ebind (view_rows (latent [1, 0, 0])) (\<lambda>zr. sum_dims 1 (tmap (\<lambda>x. fl_mul x x) zr))
               = Inr (vec [1])"
    using latent_norm_eval[of 1 0 0] by simp
  have dec: "decoder_s m \<lparr>shape = [1, 4], elems = [Fin 0, Fin 1, Fin 0, Fin 0]\<rparr> = Inr ?f"
    by (simp add: dm)
  have sm: "batched_vector_smoothing id_ext ?f (deformation_kernel_width m) False = Inr ?f"
    by (simp add: id_ext_def)
  have sh: "shape ?f = 1 # [2, 1, 1]" by (simp add: zeros_def)
  have ln: "length [2::nat, 1, 1] = length (grid_size m) + 1" using gs by simp
  have en: "DVAE_field_energy (length (grid_size m)) ?f ?f = Inr (vec [0])"
    unfolding len zero_pair using pair_field_energy[of 0 0 0 0] by simp
  have v: "(0::nat) < 1" "elems (vec [1]) ! 0 = Fin 1" "elems (vec [0]) ! 0 = Fin 0"
    "tol m < 1" "(0::real) < 1" "(0::real) \<le> 0"
    by (simp_all add: vec_def tl)
  from unguarded_normalizer_in_decode[OF iso sz cat_last_eval lat dec sm sh sh ln en v]
  show ?thesis
  proof (elim exE conjE)
    fix vn n
    assume vel: "DVAE_velocity_field id_ext m (latent [0]) (latent [1, 0, 0]) = Inr vn"
      and n0: "elems n ! 0 = (if (0::real) = 0 then PInf else NaN)"
      and row: "\<forall>j < prod_list [2, 1, 1].
                  elems vn ! (0 * prod_list [2, 1, 1] + j)
                    = fl_mul (elems ?f ! (0 * prod_list [2, 1, 1] + j)) (elems n ! 0)"
      and dec: "\<forall>j < prod_list [2, 1, 1].
                  fl_isnan (elems vn ! (0 * prod_list [2, 1, 1] + j)) \<longrightarrow>
                    DVAE_decode_s id_ext m (latent [0]) (latent [1, 0, 0])
                      = Inl (AssertionError ''NaN detected v'')
                  \<and> DRVAE_decode_s id_ext m (latent [0]) (latent [1, 0, 0])
                      = Inl (AssertionError ''NaN detected v'')"
    from row[rule_format, of 0, unfolded zero_pair] n0 have nan: "elems vn ! 0 = NaN"
      by simp
    with dec[rule_format, of 0]
    have "DVAE_decode_s id_ext m (latent [0]) (latent [1, 0, 0])
            = Inl (AssertionError ''NaN detected v'')"
      by simp
    with nan m iso v(4) lat en vel show ?thesis by blast
  qed
qed




end
